theory Spec2Isabelle
  imports Main "HOL-Library.Word" "HOL-Library.Sublist"
begin

section \<open>Outcomes of a call\<close>

text \<open>
  A Go call either returns or panics. A panic is a value of the model, so that every
  branch of the source that aborts is a branch of the embedding.
\<close>

type_synonym ValueState = "8 word"

datatype panic =
    NilDereference
  | IndexOutOfRange
  | UnhandledListState ValueState
  | PanicText string

datatype 'a outcome = Panic panic | Return 'a

type_synonym error = string

section \<open>Value states\<close>

text \<open>
  Modelled from the spec: \<^verbatim>\<open>attr.ValueState\<close> and its three constants are declared in the
  \<^verbatim>\<open>attr\<close> package, which is not among the sources. The spec names the three states
  Null, Unknown and Known; \<^verbatim>\<open>list_value.go\<close> documents that the zero value of the state
  field is null. The state is a small unsigned integer, so a struct can hold a state
  outside the three defined ones; the source has a \<^verbatim>\<open>default\<close> branch for it.
\<close>

definition ValueStateNull :: ValueState where
  "ValueStateNull = 0"

definition ValueStateUnknown :: ValueState where
  "ValueStateUnknown = 1"

definition ValueStateKnown :: ValueState where
  "ValueStateKnown = 2"

section \<open>Type descriptors\<close>

text \<open>
  Modelled from the spec: the implementations of \<^verbatim>\<open>attr.Type\<close> are not among the sources.
  The kinds are the ones of the spec (primitive, list, set, map, object, tuple, dynamic).
  The attribute types of an object are listed in a fixed order of their names, so that
  structural equality of descriptors is equality of the attribute maps.
\<close>

datatype Type =
    BoolType
  | NumberType
  | StringType
  | DynamicType
  | ListType Type
  | SetType Type
  | MapType Type
  | TupleType "Type list"
  | ObjectType "(string \<times> Type) list"

text \<open>
  Modelled from the spec: \<^verbatim>\<open>Equal\<close> of a descriptor, "two descriptors are equal iff same
  kind and, recursively, equal element/attribute types". The receiver is a descriptor;
  the argument is an interface value that may be nil (\<open>None\<close>), or the list descriptor
  \<^verbatim>\<open>ListType{ElemType: nil}\<close> that \<^verbatim>\<open>ListValue.Type\<close> builds for a list without element
  type (also \<open>None\<close>): neither is of the same kind with equal element types as a
  descriptor.
\<close>

fun TypeEqual :: "Type \<Rightarrow> Type option \<Rightarrow> bool" where
  "TypeEqual t None = False"
| "TypeEqual t (Some u) = (t = u)"

section \<open>Wire values\<close>

text \<open>
  The wire types and values of the \<^verbatim>\<open>tftypes\<close> package of terraform-plugin-go, as far as
  \<^verbatim>\<open>list_value.go\<close> uses them: a value is a type and either the nil marker, the unknown
  marker or a payload.
\<close>

datatype tfType =
    tfBool
  | tfNumber
  | tfString
  | DynamicPseudoType
  | tfList tfType
  | tfSet tfType
  | tfMap tfType
  | tfTuple "tfType list"
  | tfObject "(string \<times> tfType) list"

datatype tfValue = tftypes_NewValue (Type_of: tfType) (value_of: tfData)
and tfData =
    tfNil
  | UnknownValue
  | tfStringData string
  | tfNumberData int
  | tfBoolData bool
  | tfValues "tfValue list"

definition tfIsNull :: "tfValue \<Rightarrow> bool" where
  "tfIsNull val = (value_of val = tfNil)"

definition tfIsKnown :: "tfValue \<Rightarrow> bool" where
  "tfIsKnown val = (value_of val \<noteq> UnknownValue)"

text \<open>
  Modelled from the spec: \<^verbatim>\<open>TerraformType\<close> of a descriptor, the wire type of its kind; the
  dynamic kind is the dynamic placeholder.
\<close>

fun TerraformType :: "Type \<Rightarrow> tfType" where
  "TerraformType BoolType = tfBool"
| "TerraformType NumberType = tfNumber"
| "TerraformType StringType = tfString"
| "TerraformType DynamicType = DynamicPseudoType"
| "TerraformType (ListType t) = tfList (TerraformType t)"
| "TerraformType (SetType t) = tfSet (TerraformType t)"
| "TerraformType (MapType t) = tfMap (TerraformType t)"
| "TerraformType (TupleType ts) = tfTuple (map TerraformType ts)"
| "TerraformType (ObjectType ats) = tfObject (map (\<lambda>(n, t). (n, TerraformType t)) ats)"

section \<open>Attribute values\<close>

text \<open>
  \<^verbatim>\<open>ListValue\<close> is the struct of \<^verbatim>\<open>list_value.go\<close>: the elements, the element type (an
  interface value, nil in the zero value of the struct: \<open>None\<close>) and the state.

  Modelled from the spec: the other implementations of \<^verbatim>\<open>attr.Value\<close> are not among the
  sources. The string, number and dynamic kinds are given by their three states; a known
  number is an integer here, and a known dynamic value holds the concrete value it was
  resolved to.
\<close>

datatype Value =
    StringNull
  | StringUnknown
  | StringValue string
  | NumberNull
  | NumberUnknown
  | NumberValue int
  | DynamicNull
  | DynamicUnknown
  | DynamicValue Value
  | AttrListValue ListValue
and ListValue =
    ListValue (elements: "Value list") (elementType: "Type option") (state: ValueState)

subsection \<open>Constructors of the null and unknown list\<close>

definition NewListNull :: "Type option \<Rightarrow> ListValue" where
  "NewListNull elemType = ListValue [] elemType ValueStateNull"

definition NewListUnknown :: "Type option \<Rightarrow> ListValue" where
  "NewListUnknown elemType = ListValue [] elemType ValueStateUnknown"

subsection \<open>Accessors\<close>

definition Elements :: "ListValue \<Rightarrow> Value list" where
  "Elements l = [] @ elements l"

definition ElementType :: "ListValue \<Rightarrow> Type option" where
  "ElementType l = elementType l"

definition IsNull :: "ListValue \<Rightarrow> bool" where
  "IsNull l = (state l = ValueStateNull)"

definition IsUnknown :: "ListValue \<Rightarrow> bool" where
  "IsUnknown l = (state l = ValueStateUnknown)"

text \<open>
  \<^verbatim>\<open>Type\<close> of a value. For a list it is \<^verbatim>\<open>ListType{ElemType: l.ElementType(ctx)}\<close>; for a
  list without element type that descriptor has no element type and is \<open>None\<close> here.
  Modelled from the spec for the other kinds.
\<close>

fun Value_Type :: "Value \<Rightarrow> Type option" where
  "Value_Type StringNull = Some StringType"
| "Value_Type StringUnknown = Some StringType"
| "Value_Type (StringValue s) = Some StringType"
| "Value_Type NumberNull = Some NumberType"
| "Value_Type NumberUnknown = Some NumberType"
| "Value_Type (NumberValue n) = Some NumberType"
| "Value_Type DynamicNull = Some DynamicType"
| "Value_Type DynamicUnknown = Some DynamicType"
| "Value_Type (DynamicValue v) = Some DynamicType"
| "Value_Type (AttrListValue l) = map_option ListType (ElementType l)"

subsection \<open>Equality\<close>

text \<open>
  \<^verbatim>\<open>ListValue.Equal\<close>. The argument is an \<^verbatim>\<open>attr.Value\<close>; the type assertion
  \<^verbatim>\<open>o.(ListValue)\<close> succeeds on \<open>AttrListValue\<close> only. \<^verbatim>\<open>l.elementType.Equal\<close> is a
  method call on an interface value and panics when that value is nil. The loop over
  the elements reads \<^verbatim>\<open>other.elements[idx]\<close>, in range after the length check.

  Modelled from the spec: \<^verbatim>\<open>Equal\<close> of the other kinds, same kind, same state and, when
  known, the same content.
\<close>

fun Equal :: "ListValue \<Rightarrow> Value \<Rightarrow> bool outcome"
and Equal_elements :: "Value list \<Rightarrow> Value list \<Rightarrow> bool outcome"
and Value_Equal :: "Value \<Rightarrow> Value \<Rightarrow> bool outcome" where
  "Equal (ListValue es et st) ov =
     (case ov of
        AttrListValue other \<Rightarrow>
          (case et of
             None \<Rightarrow> Panic NilDereference
           | Some lt \<Rightarrow>
               if \<not> TypeEqual lt (elementType other) then Return False
               else if st \<noteq> state other then Return False
               else if st \<noteq> ValueStateKnown then Return True
               else if length es \<noteq> length (elements other) then Return False
               else Equal_elements es (elements other))
      | _ \<Rightarrow> Return False)"
| "Equal_elements [] os = Return True"
| "Equal_elements (lElem # es) [] = Panic IndexOutOfRange"
| "Equal_elements (lElem # es) (otherElem # os) =
     (case Value_Equal lElem otherElem of
        Panic p \<Rightarrow> Panic p
      | Return b \<Rightarrow> if \<not> b then Return False else Equal_elements es os)"
| "Value_Equal (AttrListValue l) ov = Equal l ov"
| "Value_Equal (DynamicValue v) ov =
     (case ov of DynamicValue w \<Rightarrow> Value_Equal v w | _ \<Rightarrow> Return False)"
| "Value_Equal StringNull ov = Return (ov = StringNull)"
| "Value_Equal StringUnknown ov = Return (ov = StringUnknown)"
| "Value_Equal (StringValue s) ov = Return (ov = StringValue s)"
| "Value_Equal NumberNull ov = Return (ov = NumberNull)"
| "Value_Equal NumberUnknown ov = Return (ov = NumberUnknown)"
| "Value_Equal (NumberValue n) ov = Return (ov = NumberValue n)"
| "Value_Equal DynamicNull ov = Return (ov = DynamicNull)"
| "Value_Equal DynamicUnknown ov = Return (ov = DynamicUnknown)"

subsection \<open>Conversion to the wire value\<close>

text \<open>
  The first loop of \<^verbatim>\<open>ListValue.ToTerraformValue\<close>, run when the element type is dynamic:
  "find the first non-dynamic value and use that as the type". It takes the results of
  converting the elements, in order, and the element type found so far.
\<close>

fun firstNonDynamicType ::
  "(tfValue \<times> error option) outcome list \<Rightarrow> tfType \<Rightarrow> tfType outcome" where
  "firstNonDynamicType [] elemTfType = Return elemTfType"
| "firstNonDynamicType (Panic p # rs) elemTfType = Panic p"
| "firstNonDynamicType (Return (val, err) # rs) elemTfType =
     (if err = None \<and> Type_of val \<noteq> DynamicPseudoType then Return (Type_of val)
      else firstNonDynamicType rs elemTfType)"

text \<open>
  The body of the second loop: an unknown or nil value of the dynamic placeholder is
  replaced by an unknown or nil value of the element type.
\<close>

definition retypeDynamic :: "tfType \<Rightarrow> tfValue \<Rightarrow> tfValue" where
  "retypeDynamic elemTfType val =
     (if Type_of val = DynamicPseudoType then
        (if tfIsNull val then tftypes_NewValue elemTfType tfNil
         else if \<not> tfIsKnown val then tftypes_NewValue elemTfType UnknownValue
         else val)
      else val)"

text \<open>
  The second loop: it stops with the error of the first element that fails to convert,
  and otherwise appends each (re-typed) value to \<^verbatim>\<open>vals\<close>.
\<close>

fun convertElements ::
  "(tfValue \<times> error option) outcome list \<Rightarrow> tfType \<Rightarrow> tfValue list \<Rightarrow>
   (error + tfValue list) outcome" where
  "convertElements [] elemTfType vals = Return (Inr vals)"
| "convertElements (Panic p # rs) elemTfType vals = Panic p"
| "convertElements (Return (val, Some err) # rs) elemTfType vals = Return (Inl err)"
| "convertElements (Return (val, None) # rs) elemTfType vals =
     convertElements rs elemTfType (vals @ [retypeDynamic elemTfType val])"

text \<open>
  \<^verbatim>\<open>ListValue.ToTerraformValue\<close>. \<^verbatim>\<open>tftypes.ValidateValue\<close> belongs to terraform-plugin-go
  and is the parameter \<open>ValidateValue\<close>: it answers \<open>None\<close> or an error. The element type is
  an interface value, and \<^verbatim>\<open>l.ElementType(ctx).TerraformType(ctx)\<close> panics when it is nil.
  The type assertion to \<^verbatim>\<open>attr.TypeWithDynamicValue\<close> succeeds on the dynamic kind. Each
  element is converted in both loops of the source, with the same result; the results
  are computed once here and both loops read them in order.

  Modelled from the spec: \<^verbatim>\<open>ToTerraformValue\<close> of the kinds that are not among the sources.
  A null or unknown value is the nil or unknown marker of its wire type; a null or
  unknown dynamic value is a marker of the dynamic placeholder; a known dynamic value
  converts as the concrete value it holds.
\<close>

fun ToTerraformValue ::
  "(tfType \<Rightarrow> tfValue list \<Rightarrow> error option) \<Rightarrow> ListValue \<Rightarrow> (tfValue \<times> error option) outcome"
and Value_ToTerraformValue ::
  "(tfType \<Rightarrow> tfValue list \<Rightarrow> error option) \<Rightarrow> Value \<Rightarrow> (tfValue \<times> error option) outcome"
where
  "ToTerraformValue ValidateValue (ListValue es et st) =
     (case et of
        None \<Rightarrow> Panic NilDereference
      | Some t \<Rightarrow>
          (let listType = tfList (TerraformType t) in
           if st = ValueStateKnown then
             (let converted = map (Value_ToTerraformValue ValidateValue) es in
              case (if t = DynamicType then firstNonDynamicType converted (TerraformType t)
                    else Return (TerraformType t)) of
                Panic p \<Rightarrow> Panic p
              | Return elemTfType \<Rightarrow>
                  (case convertElements converted elemTfType [] of
                     Panic p \<Rightarrow> Panic p
                   | Return (Inl err) \<Rightarrow> Return (tftypes_NewValue listType UnknownValue, Some err)
                   | Return (Inr vals) \<Rightarrow>
                       (case ValidateValue listType vals of
                          Some err \<Rightarrow> Return (tftypes_NewValue listType UnknownValue, Some err)
                        | None \<Rightarrow> Return (tftypes_NewValue listType (tfValues vals), None))))
           else if st = ValueStateNull then Return (tftypes_NewValue listType tfNil, None)
           else if st = ValueStateUnknown then Return (tftypes_NewValue listType UnknownValue, None)
           else Panic (UnhandledListState st)))"
| "Value_ToTerraformValue ValidateValue (AttrListValue l) = ToTerraformValue ValidateValue l"
| "Value_ToTerraformValue ValidateValue (DynamicValue v) = Value_ToTerraformValue ValidateValue v"
| "Value_ToTerraformValue ValidateValue StringNull = Return (tftypes_NewValue tfString tfNil, None)"
| "Value_ToTerraformValue ValidateValue StringUnknown =
     Return (tftypes_NewValue tfString UnknownValue, None)"
| "Value_ToTerraformValue ValidateValue (StringValue s) =
     Return (tftypes_NewValue tfString (tfStringData s), None)"
| "Value_ToTerraformValue ValidateValue NumberNull = Return (tftypes_NewValue tfNumber tfNil, None)"
| "Value_ToTerraformValue ValidateValue NumberUnknown =
     Return (tftypes_NewValue tfNumber UnknownValue, None)"
| "Value_ToTerraformValue ValidateValue (NumberValue n) =
     Return (tftypes_NewValue tfNumber (tfNumberData n), None)"
| "Value_ToTerraformValue ValidateValue DynamicNull =
     Return (tftypes_NewValue DynamicPseudoType tfNil, None)"
| "Value_ToTerraformValue ValidateValue DynamicUnknown =
     Return (tftypes_NewValue DynamicPseudoType UnknownValue, None)"

section \<open>Diagnostics\<close>

text \<open>
  Modelled from the spec: the \<^verbatim>\<open>diag\<close> package is not among the sources. A diagnostic has
  a severity, a short summary and a free-text detail; accumulation is append-only;
  \<^verbatim>\<open>HasError\<close> holds when one of the diagnostics has the severity error. The names of the
  severities are the ones \<^verbatim>\<open>%s\<close> prints.
\<close>

datatype Severity = SeverityInvalid | SeverityError | SeverityWarning

record Diagnostic =
  Severity :: Severity
  Summary :: string
  Detail :: string

type_synonym Diagnostics = "Diagnostic list"

definition NewErrorDiagnostic :: "string \<Rightarrow> string \<Rightarrow> Diagnostic" where
  "NewErrorDiagnostic summary detail =
     \<lparr>Severity = SeverityError, Summary = summary, Detail = detail\<rparr>"

definition HasError :: "Diagnostics \<Rightarrow> bool" where
  "HasError diags = list_ex (\<lambda>d. Severity d = SeverityError) diags"

definition AddError :: "Diagnostics \<Rightarrow> string \<Rightarrow> string \<Rightarrow> Diagnostics" where
  "AddError diags summary detail = diags @ [NewErrorDiagnostic summary detail]"

fun SeverityString :: "Severity \<Rightarrow> string" where
  "SeverityString SeverityInvalid = ''Invalid''"
| "SeverityString SeverityError = ''Error''"
| "SeverityString SeverityWarning = ''Warning''"

subsection \<open>Formatting\<close>

text \<open>
  \<^verbatim>\<open>%d\<close> of a slice index: the decimal digits of a natural number.
\<close>

definition digit :: "nat \<Rightarrow> char" where
  "digit n = ''0123456789'' ! n"

function Sprintf_d :: "nat \<Rightarrow> string" where
  "Sprintf_d n = (if n < 10 then [digit n] else Sprintf_d (n div 10) @ [digit (n mod 10)])"
  by pat_completeness auto
termination
  by (relation "measure id") auto

declare Sprintf_d.simps [simp del]

text \<open>\<^verbatim>\<open>strings.Join\<close>.\<close>

fun Join :: "string list \<Rightarrow> string \<Rightarrow> string" where
  "Join [] sep = []"
| "Join [s] sep = s"
| "Join (s # t # ss) sep = s @ sep @ Join (t # ss) sep"

section \<open>Construction of a known list\<close>

text \<open>
  The \<^verbatim>\<open>String\<close> method of a type descriptor is not among the sources and the spec gives no
  format for it: it is the parameter \<open>TypeString\<close> of the constructors. Its argument is
  what \<^verbatim>\<open>%s\<close> receives, a descriptor or the \<open>None\<close> of \<open>Value_Type\<close>.
\<close>

definition invalidElementIntro :: string where
  "invalidElementIntro =
     ''While creating a List value, an invalid element was detected. '' @
     ''A List must use the single, given element type. '' @
     ''This is always an issue with the provider and should be reported to the provider developers.'' @
     [CHR 0x0A, CHR 0x0A]"

definition invalidElementDetail ::
  "(Type option \<Rightarrow> string) \<Rightarrow> Type \<Rightarrow> nat \<Rightarrow> Type option \<Rightarrow> string" where
  "invalidElementDetail TypeString elemType idx elemT =
     invalidElementIntro @
     (''List Element Type: '' @ TypeString (Some elemType) @ [CHR 0x0A]) @
     (''List Index ('' @ Sprintf_d idx @ '') Element Type: '' @ TypeString elemT)"

text \<open>
  The loop of \<^verbatim>\<open>NewListValue\<close> over the elements and their indexes, adding an error for
  each element whose type the element type does not equal.
\<close>

fun NewListValue_loop ::
  "(Type option \<Rightarrow> string) \<Rightarrow> Type \<Rightarrow> nat \<Rightarrow> Value list \<Rightarrow> Diagnostics \<Rightarrow> Diagnostics" where
  "NewListValue_loop TypeString elemType idx [] diags = diags"
| "NewListValue_loop TypeString elemType idx (element # rest) diags =
     NewListValue_loop TypeString elemType (Suc idx) rest
       (if \<not> TypeEqual elemType (Value_Type element)
        then AddError diags ''Invalid List Element Type''
               (invalidElementDetail TypeString elemType idx (Value_Type element))
        else diags)"

text \<open>
  \<^verbatim>\<open>NewListValue\<close>. The element type is an interface value: when it is nil, the call of
  its \<^verbatim>\<open>Equal\<close> method on the first element panics, and with no element the loop does not
  run.
\<close>

definition NewListValue ::
  "(Type option \<Rightarrow> string) \<Rightarrow> Type option \<Rightarrow> Value list \<Rightarrow>
   (ListValue \<times> Diagnostics) outcome" where
  "NewListValue TypeString elemType elems =
     (case elemType of
        None \<Rightarrow>
          if elems = [] then Return (ListValue elems elemType ValueStateKnown, [])
          else Panic NilDereference
      | Some t \<Rightarrow>
          (let diags = NewListValue_loop TypeString t 0 elems [] in
           if HasError diags then Return (NewListUnknown elemType, diags)
           else Return (ListValue elems elemType ValueStateKnown, [])))"

text \<open>\<^verbatim>\<open>NewListValueMust\<close>.\<close>

definition NewListValueMust ::
  "(Type option \<Rightarrow> string) \<Rightarrow> Type option \<Rightarrow> Value list \<Rightarrow> ListValue outcome" where
  "NewListValueMust TypeString elemType elems =
     (case NewListValue TypeString elemType elems of
        Panic p \<Rightarrow> Panic p
      | Return (list, diags) \<Rightarrow>
          if HasError diags then
            Panic (PanicText (''NewListValueMust received error(s): '' @
              Join (map (\<lambda>diagnostic. SeverityString (Severity diagnostic) @ '' | '' @
                           Summary diagnostic @ '' | '' @ Detail diagnostic) diags)
                   [CHR 0x0A]))
          else Return list)"

section \<open>String rendering\<close>

text \<open>
  Modelled from the spec: \<^verbatim>\<open>attr.UnknownValueString\<close> and \<^verbatim>\<open>attr.NullValueString\<close> are
  declared in the \<^verbatim>\<open>attr\<close> package, which is not among the sources: "a fixed sentinel
  token" for each of the two states.
\<close>

definition UnknownValueString :: string where
  "UnknownValueString = ''<unknown>''"

definition NullValueString :: string where
  "NullValueString = ''<null>''"

text \<open>
  The loop of \<^verbatim>\<open>ListValue.String\<close>: it writes a comma before each element but the first.
\<close>

fun writeElements :: "nat \<Rightarrow> string list \<Rightarrow> string \<Rightarrow> string" where
  "writeElements i [] res = res"
| "writeElements i (e # es) res =
     writeElements (Suc i) es ((if i \<noteq> 0 then res @ '','' else res) @ e)"

text \<open>
  \<^verbatim>\<open>ListValue.String\<close>. The \<^verbatim>\<open>String\<close> methods of the other kinds are not among the sources
  and are the parameter \<open>kindString\<close>. The loop ranges over \<^verbatim>\<open>l.Elements()\<close>, a copy of the
  elements \<open>es\<close>.
\<close>

fun ListValue_String :: "(Value \<Rightarrow> string) \<Rightarrow> ListValue \<Rightarrow> string"
and Value_String :: "(Value \<Rightarrow> string) \<Rightarrow> Value \<Rightarrow> string" where
  "ListValue_String kindString (ListValue es et st) =
     (if IsUnknown (ListValue es et st) then UnknownValueString
      else if IsNull (ListValue es et st) then NullValueString
      else writeElements 0 (map (Value_String kindString) es) ''['' @ '']'')"
| "Value_String kindString (AttrListValue l) = ListValue_String kindString l"
| "Value_String kindString v = kindString v"

section \<open>Extraction of the elements into a native target\<close>

text \<open>
  \<^verbatim>\<open>reflect.Options\<close>, as far as \<^verbatim>\<open>ElementsAs\<close> sets it.
\<close>

record Options =
  UnhandledNullAsEmpty :: bool
  UnhandledUnknownAsEmpty :: bool

definition elementConversionErrorDetail :: "error \<Rightarrow> string" where
  "elementConversionErrorDetail err =
     ''An unexpected error was encountered trying to convert list elements. '' @
     ''This is always an error in the provider. '' @
     ''Please report the following to the provider developer:'' @ [CHR 0x0A, CHR 0x0A] @ err"

text \<open>
  \<^verbatim>\<open>ListValue.ElementsAs\<close>. \<^verbatim>\<open>reflect.Into\<close> is not among the sources and is the parameter
  \<open>Into\<close>; it receives the list type, the wire value, the target and the options, and
  answers the written target and the diagnostics. The list type is
  \<^verbatim>\<open>ListType{ElemType: l.elementType}\<close>, as in \<open>Value_Type\<close>.
\<close>

definition ElementsAs ::
  "(tfType \<Rightarrow> tfValue list \<Rightarrow> error option) \<Rightarrow>
   (Type option \<Rightarrow> tfValue \<Rightarrow> 'target \<Rightarrow> Options \<Rightarrow> ('target \<times> Diagnostics) outcome) \<Rightarrow>
   ListValue \<Rightarrow> 'target \<Rightarrow> bool \<Rightarrow> ('target \<times> Diagnostics) outcome" where
  "ElementsAs ValidateValue Into l target allowUnhandled =
     (case ToTerraformValue ValidateValue l of
        Panic p \<Rightarrow> Panic p
      | Return (values, Some err) \<Rightarrow>
          Return (target,
            [NewErrorDiagnostic ''List Element Conversion Error''
               (elementConversionErrorDetail err)])
      | Return (values, None) \<Rightarrow>
          Into (map_option ListType (elementType l)) values target
            \<lparr>UnhandledNullAsEmpty = allowUnhandled, UnhandledUnknownAsEmpty = allowUnhandled\<rparr>)"

section \<open>Semantic equality of dynamic values\<close>

text \<open>
  The request and the response of \<^verbatim>\<open>ValueSemanticEqualityDynamic\<close>, with the fields the
  function reads and writes. The values are \<^verbatim>\<open>attr.Value\<close>s of provider-defined types: the
  type \<open>'v\<close>.
\<close>

record 'v ValueSemanticEqualityRequest =
  PriorValue :: 'v
  ProposedNewValue :: 'v

record 'v ValueSemanticEqualityResponse =
  NewValue :: 'v
  Diagnostics :: Diagnostics

text \<open>
  What the function does besides writing the response: the two trace messages of the
  logger, with the rendering of the proposed value, and the call of the provider's
  \<^verbatim>\<open>DynamicSemanticEquals\<close>, with its receiver and its argument.
\<close>

datatype 'v effect =
    FrameworkTrace string string
  | CallDynamicSemanticEquals 'v 'v

text \<open>
  \<^verbatim>\<open>ValueSemanticEqualityDynamic\<close>. The parameters are the methods of the values:
  \<open>implements v\<close> is the outcome of the type assertion of \<open>v\<close> to
  \<^verbatim>\<open>basetypes.DynamicValuableWithSemanticEquals\<close>, \<open>DynamicSemanticEquals\<close> is the method of
  that interface and \<open>String\<close> the one of \<^verbatim>\<open>attr.Value\<close>. The result is the response after
  the call and what was done, in order.

  Modelled from the spec: \<^verbatim>\<open>Diagnostics.Append\<close>, "diagnostics accumulation is append-only".
\<close>

definition ValueSemanticEqualityDynamic ::
  "('v \<Rightarrow> bool) \<Rightarrow> ('v \<Rightarrow> 'v \<Rightarrow> bool \<times> Diagnostics) \<Rightarrow> ('v \<Rightarrow> string) \<Rightarrow>
   'v ValueSemanticEqualityRequest \<Rightarrow> 'v ValueSemanticEqualityResponse \<Rightarrow>
   'v ValueSemanticEqualityResponse \<times> 'v effect list" where
  "ValueSemanticEqualityDynamic implements DynamicSemanticEquals String req resp =
     (if \<not> implements (PriorValue req) then (resp, [])
      else if \<not> implements (ProposedNewValue req) then (resp, [])
      else
        (let priorValuable = PriorValue req;
             proposedNewValuable = ProposedNewValue req;
             (usePriorValue, diags) = DynamicSemanticEquals proposedNewValuable priorValuable;
             effects =
               [FrameworkTrace ''Calling provider defined type-based SemanticEquals''
                  (String proposedNewValuable),
                CallDynamicSemanticEquals proposedNewValuable priorValuable,
                FrameworkTrace ''Called provider defined type-based SemanticEquals''
                  (String proposedNewValuable)];
             resp1 = resp\<lparr>Diagnostics := Diagnostics resp @ diags\<rparr>
         in if \<not> usePriorValue then (resp1, effects)
            else (resp1\<lparr>NewValue := priorValuable\<rparr>, effects)))"

section \<open>The elements in memory\<close>

text \<open>
  A Go slice is a view of a backing array, and two slices of one array see each other's
  writes. The heap is the list of the backing arrays; a slice names its array, its
  offset in it and its length. The cells hold values: the elements of a list are
  interface values, copied as a whole.
\<close>

type_synonym heap = "Value list list"

record slice =
  array :: nat
  offset :: nat
  len :: nat

definition slice_valid :: "heap \<Rightarrow> slice \<Rightarrow> bool" where
  "slice_valid h s = (array s < length h \<and> offset s + len s \<le> length (h ! array s))"

definition slice_get :: "heap \<Rightarrow> slice \<Rightarrow> Value list" where
  "slice_get h s = take (len s) (drop (offset s) (h ! array s))"

text \<open>
  The assignment \<^verbatim>\<open>s[i] = v\<close>: it panics out of range and writes the cell of the backing
  array otherwise.
\<close>

definition slice_set :: "heap \<Rightarrow> slice \<Rightarrow> nat \<Rightarrow> Value \<Rightarrow> heap outcome" where
  "slice_set h s i v =
     (if i < len s then Return (h[array s := (h ! array s)[offset s + i := v]])
      else Panic IndexOutOfRange)"

text \<open>
  A sequence of assignments to cells of slices, as a caller that holds the slices may
  run it; it stops at the first panic.
\<close>

fun slice_sets :: "heap \<Rightarrow> (slice \<times> nat \<times> Value) list \<Rightarrow> heap outcome" where
  "slice_sets h [] = Return h"
| "slice_sets h ((s, i, v) # ws) =
     (case slice_set h s i v of Panic p \<Rightarrow> Panic p | Return h' \<Rightarrow> slice_sets h' ws)"

text \<open>
  The struct \<^verbatim>\<open>ListValue\<close> in memory: the field \<^verbatim>\<open>elements\<close> is a slice. \<open>load\<close> reads the
  list that the struct holds in a heap; the methods of the list are the ones above, on
  what \<open>load\<close> reads.
\<close>

record ListValue_struct =
  elements_field :: slice
  elementType_field :: "Type option"
  state_field :: ValueState

definition load :: "heap \<Rightarrow> ListValue_struct \<Rightarrow> ListValue" where
  "load h l = ListValue (slice_get h (elements_field l)) (elementType_field l) (state_field l)"

text \<open>
  \<^verbatim>\<open>ListValue.Elements\<close> in memory: \<^verbatim>\<open>make\<close> allocates a new backing array of the length of
  the elements, \<^verbatim>\<open>append\<close> copies the elements into it without reallocating, and the
  result is the slice of the whole new array. The new array is added at the end of the
  heap.
\<close>

definition Elements_heap :: "heap \<Rightarrow> ListValue_struct \<Rightarrow> slice \<times> heap" where
  "Elements_heap h l =
     (let result = \<lparr>array = length h, offset = 0, len = len (elements_field l)\<rparr>
      in (result, h @ [slice_get h (elements_field l)]))"

section \<open>Validation of nested dynamic types\<close>

text \<open>
  \<^verbatim>\<open>checkAttrTypeForDynamics\<close>. The type switch takes the first case that matches: the
  dynamic kind (\<^verbatim>\<open>attr.TypeWithDynamicValue\<close>), then lists, maps and sets
  (\<^verbatim>\<open>attr.TypeWithElementType\<close>), tuples (\<^verbatim>\<open>attr.TypeWithElementTypes\<close>) and objects
  (\<^verbatim>\<open>attr.TypeWithAttributeTypes\<close>). \<^verbatim>\<open>fwschema.CollectionWithDynamicTypeDiag\<close> is not among
  the sources and is a parameter. The result is a diagnostic or nil (\<open>None\<close>). The loop over
  the attribute types of an object ranges over a Go map; it is run here in the order of
  the list of attributes.
\<close>

fun checkAttrTypeForDynamics :: "('p \<Rightarrow> 'd) \<Rightarrow> 'p \<Rightarrow> Type \<Rightarrow> 'd option"
and checkElementTypes :: "('p \<Rightarrow> 'd) \<Rightarrow> 'p \<Rightarrow> Type list \<Rightarrow> 'd option"
and checkAttributeTypes :: "('p \<Rightarrow> 'd) \<Rightarrow> 'p \<Rightarrow> (string \<times> Type) list \<Rightarrow> 'd option" where
  "checkAttrTypeForDynamics CollectionWithDynamicTypeDiag attrPath DynamicType =
     Some (CollectionWithDynamicTypeDiag attrPath)"
| "checkAttrTypeForDynamics CollectionWithDynamicTypeDiag attrPath (ListType t) =
     checkAttrTypeForDynamics CollectionWithDynamicTypeDiag attrPath t"
| "checkAttrTypeForDynamics CollectionWithDynamicTypeDiag attrPath (SetType t) =
     checkAttrTypeForDynamics CollectionWithDynamicTypeDiag attrPath t"
| "checkAttrTypeForDynamics CollectionWithDynamicTypeDiag attrPath (MapType t) =
     checkAttrTypeForDynamics CollectionWithDynamicTypeDiag attrPath t"
| "checkAttrTypeForDynamics CollectionWithDynamicTypeDiag attrPath (TupleType ts) =
     checkElementTypes CollectionWithDynamicTypeDiag attrPath ts"
| "checkAttrTypeForDynamics CollectionWithDynamicTypeDiag attrPath (ObjectType ats) =
     checkAttributeTypes CollectionWithDynamicTypeDiag attrPath ats"
| "checkAttrTypeForDynamics CollectionWithDynamicTypeDiag attrPath BoolType = None"
| "checkAttrTypeForDynamics CollectionWithDynamicTypeDiag attrPath NumberType = None"
| "checkAttrTypeForDynamics CollectionWithDynamicTypeDiag attrPath StringType = None"
| "checkElementTypes CollectionWithDynamicTypeDiag attrPath [] = None"
| "checkElementTypes CollectionWithDynamicTypeDiag attrPath (elemType # ts) =
     (case checkAttrTypeForDynamics CollectionWithDynamicTypeDiag attrPath elemType of
        Some diag \<Rightarrow> Some diag
      | None \<Rightarrow> checkElementTypes CollectionWithDynamicTypeDiag attrPath ts)"
| "checkAttributeTypes CollectionWithDynamicTypeDiag attrPath [] = None"
| "checkAttributeTypes CollectionWithDynamicTypeDiag attrPath ((name, objAttrType) # ats) =
     (case checkAttrTypeForDynamics CollectionWithDynamicTypeDiag attrPath objAttrType of
        Some diag \<Rightarrow> Some diag
      | None \<Rightarrow> checkAttributeTypes CollectionWithDynamicTypeDiag attrPath ats)"

section \<open>Predicates of the properties\<close>

text \<open>
  The zero value of the struct: no elements, a nil element type, and the state 0.
\<close>

definition zeroListValue :: ListValue where
  "zeroListValue = ListValue [] None 0"

text \<open>
  A list has its element types when its own element type is set and so is the one of
  every list among its elements, at any depth.
\<close>

fun hasElementTypes :: "ListValue \<Rightarrow> bool"
and Value_hasElementTypes :: "Value \<Rightarrow> bool" where
  "hasElementTypes (ListValue es et st) = (et \<noteq> None \<and> list_all Value_hasElementTypes es)"
| "Value_hasElementTypes (AttrListValue l) = hasElementTypes l"
| "Value_hasElementTypes (DynamicValue v) = Value_hasElementTypes v"
| "Value_hasElementTypes v = True"

text \<open>
  The indexes of the elements whose type the declared element type does not equal, in
  order.
\<close>

definition mismatches :: "Type \<Rightarrow> Value list \<Rightarrow> nat list" where
  "mismatches t es = filter (\<lambda>i. \<not> TypeEqual t (Value_Type (es ! i))) [0..<length es]"

text \<open>
  A rendering of the descriptors for the examples: the name of the kind, with the element
  type of a list in brackets.
\<close>

fun exampleTypeString :: "Type option \<Rightarrow> string" where
  "exampleTypeString (Some StringType) = ''types.StringType''"
| "exampleTypeString (Some NumberType) = ''types.NumberType''"
| "exampleTypeString (Some BoolType) = ''types.BoolType''"
| "exampleTypeString (Some DynamicType) = ''types.DynamicType''"
| "exampleTypeString (Some (ListType t)) = ''types.ListType['' @ exampleTypeString (Some t) @ '']''"
| "exampleTypeString t = ''types.Type''"

text \<open>
  In the words of the spec: a descriptor is dynamic, or contains a dynamic descriptor
  nested at some depth through the element type of a list, set or map, an element type
  of a tuple or an attribute type of an object.
\<close>

inductive containsDynamic :: "Type \<Rightarrow> bool" where
  dynamic: "containsDynamic DynamicType"
| inList: "containsDynamic t \<Longrightarrow> containsDynamic (ListType t)"
| inSet: "containsDynamic t \<Longrightarrow> containsDynamic (SetType t)"
| inMap: "containsDynamic t \<Longrightarrow> containsDynamic (MapType t)"
| inTuple: "t \<in> set ts \<Longrightarrow> containsDynamic t \<Longrightarrow> containsDynamic (TupleType ts)"
| inObject: "(n, t) \<in> set ats \<Longrightarrow> containsDynamic t \<Longrightarrow> containsDynamic (ObjectType ats)"

text \<open>
  In the words of the spec: the adopted wire element type is the type of the first
  converted element that is not a dynamic placeholder (the placeholder itself when
  there is none), and an element that is a null or unknown dynamic placeholder is
  re-wrapped as the same marker of the adopted type.
\<close>

definition adoptedElementType :: "tfValue list \<Rightarrow> tfType" where
  "adoptedElementType vals =
     (case find (\<lambda>val. Type_of val \<noteq> DynamicPseudoType) vals of
        Some val \<Rightarrow> Type_of val
      | None \<Rightarrow> DynamicPseudoType)"

definition rewrapMarker :: "tfType \<Rightarrow> tfValue \<Rightarrow> tfValue" where
  "rewrapMarker ty val =
     (if Type_of val = DynamicPseudoType \<and> (value_of val = tfNil \<or> value_of val = UnknownValue)
      then tftypes_NewValue ty (value_of val) else val)"

text \<open>
  A validator for the examples, after the validation of a list in terraform-plugin-go:
  the type of each element is usable as the element type of the list, and all elements
  have one type.
\<close>

fun UsableAs :: "tfType \<Rightarrow> tfType \<Rightarrow> bool" where
  "UsableAs t DynamicPseudoType = True"
| "UsableAs (tfList t) (tfList u) = UsableAs t u"
| "UsableAs (tfSet t) (tfSet u) = UsableAs t u"
| "UsableAs (tfMap t) (tfMap u) = UsableAs t u"
| "UsableAs t u = (t = u)"

fun exampleValidateValue :: "tfType \<Rightarrow> tfValue list \<Rightarrow> error option" where
  "exampleValidateValue (tfList elemType) vals =
     (if \<not> list_all (\<lambda>val. UsableAs (Type_of val) elemType) vals
      then Some ''can not use the type of an element as the element type''
      else if \<not> list_all (\<lambda>val. Type_of val = Type_of (hd vals)) vals
      then Some ''lists must only contain one type of element''
      else None)"
| "exampleValidateValue t vals = Some ''not a list type''"

text \<open>
  A collaborator for the examples: it answers the options it received as the target.
\<close>

definition recordOptions ::
  "Type option \<Rightarrow> tfValue \<Rightarrow> Options list \<Rightarrow> Options \<Rightarrow> (Options list \<times> Diagnostics) outcome" where
  "recordOptions typ val target opts = Return (target @ [opts], [])"

text \<open>
  A provider-defined dynamic type for the examples: its values are the dynamic values,
  it implements the semantic equality of dynamic values, and its
  \<^verbatim>\<open>DynamicSemanticEquals\<close> always answers to use the prior value.
\<close>

fun exampleImplements :: "Value \<Rightarrow> bool" where
  "exampleImplements DynamicNull = True"
| "exampleImplements DynamicUnknown = True"
| "exampleImplements (DynamicValue v) = True"
| "exampleImplements v = False"

definition exampleSemanticEquals :: "Value \<Rightarrow> Value \<Rightarrow> bool \<times> Diagnostics" where
  "exampleSemanticEquals proposed prior = (True, [])"

fun exampleIsNull :: "Value \<Rightarrow> bool" where
  "exampleIsNull DynamicNull = True"
| "exampleIsNull v = False"

fun exampleIsUnknown :: "Value \<Rightarrow> bool" where
  "exampleIsUnknown DynamicUnknown = True"
| "exampleIsUnknown v = False"

definition exampleString :: "Value \<Rightarrow> string" where
  "exampleString v = ''dynamic''"

section \<open>Equality of lists\<close>

lemma Equal_not_list:
  "(\<And>other. ov \<noteq> AttrListValue other) \<Longrightarrow> Equal l ov = Return False"
  by (cases l; cases ov) auto

lemma Equal_list:
  "Equal l (AttrListValue other) =
     (case elementType l of
        None \<Rightarrow> Panic NilDereference
      | Some lt \<Rightarrow>
          if \<not> TypeEqual lt (elementType other) then Return False
          else if state l \<noteq> state other then Return False
          else if state l \<noteq> ValueStateKnown then Return True
          else if length (elements l) \<noteq> length (elements other) then Return False
          else Equal_elements (elements l) (elements other))"
  by (cases l) (auto split: option.splits)

lemma Equal_elements_True:
  "length es = length os \<Longrightarrow>
   (Equal_elements es os = Return True) =
   (\<forall>i < length es. Value_Equal (es ! i) (os ! i) = Return True)"
proof (induction es os rule: list_induct2)
  case Nil
  then show ?case by simp
next
  case (Cons e es x xs)
  then show ?case
    by (auto simp: less_Suc_eq_0_disj split: outcome.splits)
qed

lemma state_constants_distinct:
  "ValueStateNull \<noteq> ValueStateKnown" "ValueStateUnknown \<noteq> ValueStateKnown"
  "ValueStateNull \<noteq> ValueStateUnknown"
  by (simp_all add: ValueStateNull_def ValueStateUnknown_def ValueStateKnown_def)

text \<open>
  C2. \<^verbatim>\<open>Equal\<close> answers true exactly when the argument is a \<^verbatim>\<open>ListValue\<close>, the \<^verbatim>\<open>Equal\<close>
  method of the receiver's element type accepts the element type of the argument, the
  states are the same and, when the state is known only, the lengths are the same and
  the elements are equal index by index. In particular two null (or two unknown) lists
  of one element type are equal whatever elements they store, and a known list and a
  null or unknown list of the same element type are not equal, in either order.
\<close>

theorem ListValue_Equal_iff:
  "((Equal l ov = Return True) =
      (\<exists>other lt. ov = AttrListValue other \<and> elementType l = Some lt \<and>
         TypeEqual lt (elementType other) \<and> state l = state other \<and>
         (state l = ValueStateKnown \<longrightarrow>
            length (elements l) = length (elements other) \<and>
            (\<forall>i < length (elements l).
               Value_Equal (elements l ! i) (elements other ! i) = Return True)))) \<and>
   (st = ValueStateNull \<or> st = ValueStateUnknown \<longrightarrow>
      Equal (ListValue es (Some t) st) (AttrListValue (ListValue es' (Some t) st)) = Return True \<and>
      Equal (ListValue es (Some t) ValueStateKnown) (AttrListValue (ListValue es' (Some t) st))
        = Return False \<and>
      Equal (ListValue es' (Some t) st) (AttrListValue (ListValue es (Some t) ValueStateKnown))
        = Return False)"
proof (intro conjI)
  show "(Equal l ov = Return True) =
      (\<exists>other lt. ov = AttrListValue other \<and> elementType l = Some lt \<and>
         TypeEqual lt (elementType other) \<and> state l = state other \<and>
         (state l = ValueStateKnown \<longrightarrow>
            length (elements l) = length (elements other) \<and>
            (\<forall>i < length (elements l).
               Value_Equal (elements l ! i) (elements other ! i) = Return True)))"
  proof (cases "\<exists>other. ov = AttrListValue other")
    case False
    then show ?thesis by (auto simp: Equal_not_list)
  next
    case True
    then obtain other where ov: "ov = AttrListValue other" by blast
    show ?thesis
      unfolding ov Equal_list
      by (auto simp: Equal_elements_True split: option.splits)
  qed
next
  show "st = ValueStateNull \<or> st = ValueStateUnknown \<longrightarrow>
      Equal (ListValue es (Some t) st) (AttrListValue (ListValue es' (Some t) st)) = Return True \<and>
      Equal (ListValue es (Some t) ValueStateKnown) (AttrListValue (ListValue es' (Some t) st))
        = Return False \<and>
      Equal (ListValue es' (Some t) st) (AttrListValue (ListValue es (Some t) ValueStateKnown))
        = Return False"
    using state_constants_distinct by auto
qed

theorem ListValue_Equal_iff_witness:
  "Equal (ListValue [StringValue ''a'', NumberNull] (Some StringType) ValueStateKnown)
     (AttrListValue (ListValue [StringValue ''a'', NumberNull] (Some StringType) ValueStateKnown))
     = Return True \<and>
   Equal (ListValue [StringValue ''a''] (Some StringType) ValueStateKnown)
     (AttrListValue (ListValue [StringValue ''b''] (Some StringType) ValueStateKnown))
     \<noteq> Return True \<and>
   Equal (ListValue [StringValue ''a''] (Some StringType) ValueStateNull)
     (AttrListValue (ListValue [] (Some StringType) ValueStateNull)) = Return True \<and>
   Equal (ListValue [StringValue ''a''] (Some StringType) ValueStateKnown)
     (AttrListValue (ListValue [StringValue ''a''] (Some StringType) ValueStateUnknown))
     = Return False"
  using
    ListValue_Equal_iff [of
      "ListValue [StringValue ''a'', NumberNull] (Some StringType) ValueStateKnown"
      "AttrListValue (ListValue [StringValue ''a'', NumberNull] (Some StringType) ValueStateKnown)"
      ValueStateNull "[StringValue ''a'']" StringType "[]"]
    ListValue_Equal_iff [of
      "ListValue [StringValue ''a''] (Some StringType) ValueStateKnown"
      "AttrListValue (ListValue [StringValue ''b''] (Some StringType) ValueStateKnown)"
      ValueStateUnknown "[StringValue ''a'']" StringType "[StringValue ''a'']"]
  by (simp add: less_Suc_eq_0_disj)

lemma Equal_elements_refl:
  "(\<And>e. e \<in> set es \<Longrightarrow> Value_Equal e e = Return True) \<Longrightarrow>
   Equal_elements es es = Return True"
  by (induction es) auto

lemma Equal_refl_aux:
  "(Value_hasElementTypes v \<longrightarrow> Value_Equal v v = Return True) \<and>
   (hasElementTypes l \<longrightarrow> Equal l (AttrListValue l) = Return True)"
proof (rule Value_ListValue.induct
    [of "\<lambda>v. Value_hasElementTypes v \<longrightarrow> Value_Equal v v = Return True"
        "\<lambda>l. hasElementTypes l \<longrightarrow> Equal l (AttrListValue l) = Return True" v l])
  fix es et st
  assume "\<And>e. e \<in> set es \<Longrightarrow> Value_hasElementTypes e \<longrightarrow> Value_Equal e e = Return True"
  then show "hasElementTypes (ListValue es et st) \<longrightarrow>
    Equal (ListValue es et st) (AttrListValue (ListValue es et st)) = Return True"
    by (auto simp: list_all_iff intro!: Equal_elements_refl)
qed simp_all

lemma Value_Equal_prim:
  "\<not> (\<exists>l. x = AttrListValue l) \<Longrightarrow> \<not> (\<exists>v. x = DynamicValue v) \<Longrightarrow>
   Value_Equal y x = Return (y = x)"
  by (cases y; cases x) (auto simp: Equal_not_list)

lemma Equal_elements_sym:
  "length es = length os \<Longrightarrow>
   (\<And>e x. e \<in> set es \<Longrightarrow> x \<in> set os \<Longrightarrow> Value_Equal e x = Value_Equal x e) \<Longrightarrow>
   Equal_elements es os = Equal_elements os es"
proof (induction es os rule: list_induct2)
  case Nil
  then show ?case by simp
next
  case (Cons e es x xs)
  have hd: "Value_Equal e x = Value_Equal x e"
    by (rule Cons.prems) simp_all
  have tl: "Equal_elements es xs = Equal_elements xs es"
    by (rule Cons.IH, rule Cons.prems) simp_all
  show ?case
    using tl by (simp add: hd split: outcome.splits)
qed

lemma Equal_sym_aux:
  "(\<forall>y. Value_hasElementTypes v \<longrightarrow> Value_hasElementTypes y \<longrightarrow>
      Value_Equal v y = Value_Equal y v) \<and>
   (\<forall>y. hasElementTypes l \<longrightarrow> Value_hasElementTypes y \<longrightarrow>
      Equal l y = Value_Equal y (AttrListValue l))"
proof (rule Value_ListValue.induct
    [of "\<lambda>v. \<forall>y. Value_hasElementTypes v \<longrightarrow> Value_hasElementTypes y \<longrightarrow>
            Value_Equal v y = Value_Equal y v"
        "\<lambda>l. \<forall>y. hasElementTypes l \<longrightarrow> Value_hasElementTypes y \<longrightarrow>
            Equal l y = Value_Equal y (AttrListValue l)" v l])
  fix es et st
  assume IH: "\<And>e. e \<in> set es \<Longrightarrow>
    \<forall>y. Value_hasElementTypes e \<longrightarrow> Value_hasElementTypes y \<longrightarrow>
      Value_Equal e y = Value_Equal y e"
  show "\<forall>y. hasElementTypes (ListValue es et st) \<longrightarrow> Value_hasElementTypes y \<longrightarrow>
    Equal (ListValue es et st) y = Value_Equal y (AttrListValue (ListValue es et st))"
  proof (intro allI impI)
    fix y
    assume h: "hasElementTypes (ListValue es et st)" and hy: "Value_hasElementTypes y"
    show "Equal (ListValue es et st) y = Value_Equal y (AttrListValue (ListValue es et st))"
    proof (cases y)
      case (AttrListValue other)
      have "length es = length (elements other) \<Longrightarrow>
            Equal_elements es (elements other) = Equal_elements (elements other) es"
        using IH h hy AttrListValue
        by (intro Equal_elements_sym) (cases other; auto simp: list_all_iff)+
      with h hy AttrListValue show ?thesis
        by (cases other) (auto simp: Equal_list split: option.splits)
    next
      case (DynamicValue w)
      then show ?thesis by simp
    qed simp_all
  qed
next
  fix x
  assume "\<forall>y. Value_hasElementTypes x \<longrightarrow> Value_hasElementTypes y \<longrightarrow>
    Value_Equal x y = Value_Equal y x"
  then show "\<forall>y. Value_hasElementTypes (DynamicValue x) \<longrightarrow> Value_hasElementTypes y \<longrightarrow>
     Value_Equal (DynamicValue x) y = Value_Equal y (DynamicValue x)"
    by (auto simp: Equal_not_list split: Value.splits)
next
  fix x
  assume "\<forall>y. hasElementTypes x \<longrightarrow> Value_hasElementTypes y \<longrightarrow>
    Equal x y = Value_Equal y (AttrListValue x)"
  then show "\<forall>y. Value_hasElementTypes (AttrListValue x) \<longrightarrow> Value_hasElementTypes y \<longrightarrow>
     Value_Equal (AttrListValue x) y = Value_Equal y (AttrListValue x)"
    by simp
qed (auto simp: Value_Equal_prim)

text \<open>
  On a list that has its element types \<^verbatim>\<open>Equal\<close> returns: it does not panic.
\<close>

lemma Equal_elements_returns:
  "length es = length os \<Longrightarrow>
   (\<And>e x. e \<in> set es \<Longrightarrow> \<exists>b. Value_Equal e x = Return b) \<Longrightarrow>
   \<exists>b. Equal_elements es os = Return b"
proof (induction es os rule: list_induct2)
  case Nil
  then show ?case by auto
next
  case (Cons e es x xs)
  from Cons.prems [of e x] obtain b where b: "Value_Equal e x = Return b" by auto
  have "\<exists>b. Equal_elements es xs = Return b"
    by (rule Cons.IH, rule Cons.prems) simp
  with b show ?case by auto
qed

lemma Equal_returns_aux:
  "(\<forall>y. Value_hasElementTypes v \<longrightarrow> (\<exists>b. Value_Equal v y = Return b)) \<and>
   (\<forall>y. hasElementTypes l \<longrightarrow> (\<exists>b. Equal l y = Return b))"
proof (rule Value_ListValue.induct
    [of "\<lambda>v. \<forall>y. Value_hasElementTypes v \<longrightarrow> (\<exists>b. Value_Equal v y = Return b)"
        "\<lambda>l. \<forall>y. hasElementTypes l \<longrightarrow> (\<exists>b. Equal l y = Return b)" v l])
  fix es et st
  assume IH: "\<And>e. e \<in> set es \<Longrightarrow>
    \<forall>y. Value_hasElementTypes e \<longrightarrow> (\<exists>b. Value_Equal e y = Return b)"
  show "\<forall>y. hasElementTypes (ListValue es et st) \<longrightarrow> (\<exists>b. Equal (ListValue es et st) y = Return b)"
  proof (intro allI impI)
    fix y
    assume h: "hasElementTypes (ListValue es et st)"
    show "\<exists>b. Equal (ListValue es et st) y = Return b"
    proof (cases "\<exists>other. y = AttrListValue other")
      case False
      then have "Equal (ListValue es et st) y = Return False"
        by (intro Equal_not_list) blast
      then show ?thesis by (rule exI)
    next
      case True
      then obtain other where y: "y = AttrListValue other" by blast
      have "length es = length (elements other) \<Longrightarrow>
            \<exists>b. Equal_elements es (elements other) = Return b"
        using IH h by (intro Equal_elements_returns) (auto simp: list_all_iff)
      with h show ?thesis
        unfolding y Equal_list by (auto split: option.splits)
    qed
  qed
next
  fix x
  assume "\<forall>y. Value_hasElementTypes x \<longrightarrow> (\<exists>b. Value_Equal x y = Return b)"
  then show "\<forall>y. Value_hasElementTypes (DynamicValue x) \<longrightarrow>
     (\<exists>b. Value_Equal (DynamicValue x) y = Return b)"
    by (auto split: Value.splits)
qed simp_all

lemma Equal_returns: "hasElementTypes l \<Longrightarrow> \<exists>b. Equal l ov = Return b"
  using Equal_returns_aux by blast

text \<open>
  C5, as stated, fails on the zero value of the struct: its element type is nil, and
  \<^verbatim>\<open>Equal\<close> calls a method on it. A list with an element type compared with the zero
  value answers false, and the zero value compared with that list panics.
\<close>

theorem Equal_zero_value_counterexample:
  "Equal zeroListValue (AttrListValue zeroListValue) = Panic NilDereference \<and>
   Equal zeroListValue (AttrListValue zeroListValue) \<noteq> Return True \<and>
   Equal (NewListNull (Some StringType)) (AttrListValue zeroListValue) = Return False \<and>
   Equal zeroListValue (AttrListValue (NewListNull (Some StringType))) = Panic NilDereference"
  by (simp add: zeroListValue_def NewListNull_def)

text \<open>
  C5, amended. For a list that has its element types, \<^verbatim>\<open>Equal\<close> of the list with itself
  is true; for two such lists \<^verbatim>\<open>Equal\<close> answers the same in both directions.
\<close>

theorem Equal_reflexive_symmetric:
  "(hasElementTypes v \<longrightarrow> Equal v (AttrListValue v) = Return True) \<and>
   (hasElementTypes a \<longrightarrow> hasElementTypes b \<longrightarrow>
      Equal a (AttrListValue b) = Equal b (AttrListValue a))"
proof (intro conjI impI)
  assume "hasElementTypes v"
  then show "Equal v (AttrListValue v) = Return True"
    using Equal_refl_aux by blast
next
  assume a: "hasElementTypes a" and b: "hasElementTypes b"
  have "Equal a (AttrListValue b) = Value_Equal (AttrListValue b) (AttrListValue a)"
    using Equal_sym_aux [of StringNull a] a b by simp
  then show "Equal a (AttrListValue b) = Equal b (AttrListValue a)"
    by simp
qed

theorem Equal_reflexive_symmetric_witness:
  "hasElementTypes
     (ListValue [AttrListValue (ListValue [StringValue ''a''] (Some StringType) ValueStateKnown),
                 AttrListValue (NewListNull (Some StringType))]
        (Some (ListType StringType)) ValueStateKnown) \<and>
   Equal
     (ListValue [AttrListValue (ListValue [StringValue ''a''] (Some StringType) ValueStateKnown),
                 AttrListValue (NewListNull (Some StringType))]
        (Some (ListType StringType)) ValueStateKnown)
     (AttrListValue
        (ListValue [AttrListValue (ListValue [StringValue ''a''] (Some StringType) ValueStateKnown),
                    AttrListValue (NewListNull (Some StringType))]
           (Some (ListType StringType)) ValueStateKnown)) = Return True \<and>
   hasElementTypes (ListValue [DynamicUnknown] (Some DynamicType) ValueStateKnown) \<and>
   Equal
     (ListValue [AttrListValue (ListValue [StringValue ''a''] (Some StringType) ValueStateKnown),
                 AttrListValue (NewListNull (Some StringType))]
        (Some (ListType StringType)) ValueStateKnown)
     (AttrListValue (ListValue [DynamicUnknown] (Some DynamicType) ValueStateKnown)) =
   Equal (ListValue [DynamicUnknown] (Some DynamicType) ValueStateKnown)
     (AttrListValue
        (ListValue [AttrListValue (ListValue [StringValue ''a''] (Some StringType) ValueStateKnown),
                    AttrListValue (NewListNull (Some StringType))]
           (Some (ListType StringType)) ValueStateKnown))"
  using Equal_reflexive_symmetric [of
      "ListValue [AttrListValue (ListValue [StringValue ''a''] (Some StringType) ValueStateKnown),
                 AttrListValue (NewListNull (Some StringType))]
        (Some (ListType StringType)) ValueStateKnown"
      "ListValue [AttrListValue (ListValue [StringValue ''a''] (Some StringType) ValueStateKnown),
                 AttrListValue (NewListNull (Some StringType))]
        (Some (ListType StringType)) ValueStateKnown"
      "ListValue [DynamicUnknown] (Some DynamicType) ValueStateKnown"]
  by (simp add: NewListNull_def)

section \<open>The zero value\<close>

text \<open>
  C10. The zero value of \<^verbatim>\<open>ListValue\<close> is null and not unknown, \<^verbatim>\<open>Elements\<close> is empty on
  it, its state is one of the three defined states, and \<^verbatim>\<open>ToTerraformValue\<close> does not
  reach the panic of the unhandled state on a struct of that state and no elements,
  whatever its element type. (On the zero value itself the element type is nil and
  \<^verbatim>\<open>ToTerraformValue\<close> panics on the nil element type before the switch.)
\<close>

theorem zero_value_is_null:
  "IsNull zeroListValue \<and> \<not> IsUnknown zeroListValue \<and> Elements zeroListValue = [] \<and>
   (state zeroListValue = ValueStateNull \<or> state zeroListValue = ValueStateUnknown \<or>
    state zeroListValue = ValueStateKnown) \<and>
   ToTerraformValue ValidateValue zeroListValue \<noteq> Panic (UnhandledListState s) \<and>
   ToTerraformValue ValidateValue zeroListValue = Panic NilDereference \<and>
   ToTerraformValue ValidateValue (ListValue [] (Some t) (state zeroListValue)) =
     Return (tftypes_NewValue (tfList (TerraformType t)) tfNil, None)"
  by (simp add: zeroListValue_def IsNull_def IsUnknown_def Elements_def
      ValueStateNull_def ValueStateUnknown_def ValueStateKnown_def)


section \<open>Construction\<close>

lemma NewListValue_loop_eq:
  "NewListValue_loop S t k es diags =
     diags @ map (\<lambda>i. NewErrorDiagnostic ''Invalid List Element Type''
                     (invalidElementDetail S t (k + i) (Value_Type (es ! i))))
               (mismatches t es)"
proof (induction es arbitrary: k diags)
  case Nil
  then show ?case by (simp add: mismatches_def)
next
  case (Cons e es)
  have up: "[0..<Suc (length es)] = 0 # map Suc [0..<length es]"
    by (simp add: upt_conv_Cons map_Suc_upt del: upt_Suc)
  show ?case
    by (simp add: Cons.IH mismatches_def up filter_map comp_def AddError_def del: upt_Suc)
qed

lemma set_mismatches:
  "i \<in> set (mismatches t es) \<longleftrightarrow> i < length es \<and> \<not> TypeEqual t (Value_Type (es ! i))"
  by (auto simp: mismatches_def)

lemma mismatches_Nil:
  "mismatches t es = [] \<longleftrightarrow> list_all (\<lambda>e. TypeEqual t (Value_Type e)) es"
  by (auto simp: mismatches_def filter_empty_conv list_all_length)

lemma HasError_map_error:
  "HasError (map (\<lambda>i. NewErrorDiagnostic (s i) (d i)) is) \<longleftrightarrow> is \<noteq> []"
  by (cases "is") (simp_all add: HasError_def NewErrorDiagnostic_def)

lemma NewListValue_Some:
  "NewListValue S (Some t) es =
     (if list_all (\<lambda>e. TypeEqual t (Value_Type e)) es
      then Return (ListValue es (Some t) ValueStateKnown, [])
      else Return (NewListUnknown (Some t),
             map (\<lambda>i. NewErrorDiagnostic ''Invalid List Element Type''
                    (invalidElementDetail S t i (Value_Type (es ! i))))
               (mismatches t es)))"
  by (simp add: NewListValue_def NewListValue_loop_eq HasError_map_error mismatches_Nil Let_def)

lemma invalidElementDetail_mentions:
  "sublist (Sprintf_d i) (invalidElementDetail S t i u)"
  "sublist (S (Some t)) (invalidElementDetail S t i u)"
  "sublist (S u) (invalidElementDetail S t i u)"
proof -
  have a: "invalidElementDetail S t i u =
      (invalidElementIntro @ ''List Element Type: '' @ S (Some t) @ [CHR 0x0A] @ ''List Index ('') @
      Sprintf_d i @ ('') Element Type: '' @ S u)"
    by (simp add: invalidElementDetail_def)
  show "sublist (Sprintf_d i) (invalidElementDetail S t i u)"
    unfolding a by (rule sublist_appendI)
  have b: "invalidElementDetail S t i u =
      (invalidElementIntro @ ''List Element Type: '') @ S (Some t) @
      ([CHR 0x0A] @ ''List Index ('' @ Sprintf_d i @ '') Element Type: '' @ S u)"
    by (simp add: invalidElementDetail_def)
  show "sublist (S (Some t)) (invalidElementDetail S t i u)"
    unfolding b by (rule sublist_appendI)
  have c: "invalidElementDetail S t i u =
      (invalidElementIntro @ ''List Element Type: '' @ S (Some t) @ [CHR 0x0A] @ ''List Index ('' @
      Sprintf_d i @ '') Element Type: '') @ S u"
    by (simp add: invalidElementDetail_def)
  show "sublist (S u) (invalidElementDetail S t i u)"
    unfolding c by (rule sublist_append_leftI)
qed

text \<open>
  C3. When the declared element type does not equal the type of some element,
  \<^verbatim>\<open>NewListValue\<close> returns the unknown list of the declared element type, with no element,
  and error diagnostics; for each offending index there is an error whose detail gives
  the index, the declared element type and the type of the element. When every element
  has the declared type the result is the known list of all the elements, so a known
  result is never partially populated.
\<close>

theorem NewListValue_type_mismatch:
  "(list_all (\<lambda>e. TypeEqual t (Value_Type e)) es \<longrightarrow>
      NewListValue S (Some t) es = Return (ListValue es (Some t) ValueStateKnown, [])) \<and>
   (\<not> list_all (\<lambda>e. TypeEqual t (Value_Type e)) es \<longrightarrow>
      (\<exists>diags. NewListValue S (Some t) es = Return (NewListUnknown (Some t), diags) \<and>
         HasError diags \<and>
         IsUnknown (NewListUnknown (Some t)) \<and>
         ElementType (NewListUnknown (Some t)) = Some t \<and>
         Elements (NewListUnknown (Some t)) = [] \<and>
         (\<forall>i < length es. \<not> TypeEqual t (Value_Type (es ! i)) \<longrightarrow>
            (\<exists>d \<in> set diags. Severity d = SeverityError \<and>
               Detail d = invalidElementDetail S t i (Value_Type (es ! i)) \<and>
               sublist (Sprintf_d i) (Detail d) \<and>
               sublist (S (Some t)) (Detail d) \<and>
               sublist (S (Value_Type (es ! i))) (Detail d)))))"
proof (intro conjI impI)
  assume "list_all (\<lambda>e. TypeEqual t (Value_Type e)) es"
  then show "NewListValue S (Some t) es = Return (ListValue es (Some t) ValueStateKnown, [])"
    by (simp add: NewListValue_Some)
next
  assume bad: "\<not> list_all (\<lambda>e. TypeEqual t (Value_Type e)) es"
  let ?diags = "map (\<lambda>i. NewErrorDiagnostic ''Invalid List Element Type''
                    (invalidElementDetail S t i (Value_Type (es ! i)))) (mismatches t es)"
  have r: "NewListValue S (Some t) es = Return (NewListUnknown (Some t), ?diags)"
    using bad by (simp add: NewListValue_Some)
  have e: "HasError ?diags"
    using bad by (simp add: HasError_map_error mismatches_Nil)
  have u: "IsUnknown (NewListUnknown (Some t))" "ElementType (NewListUnknown (Some t)) = Some t"
    "Elements (NewListUnknown (Some t)) = []"
    by (simp_all add: IsUnknown_def NewListUnknown_def ElementType_def Elements_def)
  have m: "\<exists>d \<in> set ?diags. Severity d = SeverityError \<and>
               Detail d = invalidElementDetail S t i (Value_Type (es ! i)) \<and>
               sublist (Sprintf_d i) (Detail d) \<and>
               sublist (S (Some t)) (Detail d) \<and>
               sublist (S (Value_Type (es ! i))) (Detail d)"
    if "i < length es" "\<not> TypeEqual t (Value_Type (es ! i))" for i
  proof -
    define f where "f = (\<lambda>i. NewErrorDiagnostic ''Invalid List Element Type''
                    (invalidElementDetail S t i (Value_Type (es ! i))))"
    have "i \<in> set (mismatches t es)"
      using that by (simp add: set_mismatches)
    then have "f i \<in> set (map f (mismatches t es))"
      by simp
    then have "f i \<in> set ?diags"
      by (simp only: f_def)
    moreover have "Severity (f i) = SeverityError \<and>
               Detail (f i) = invalidElementDetail S t i (Value_Type (es ! i))"
      by (simp add: f_def NewErrorDiagnostic_def)
    ultimately show ?thesis
      using invalidElementDetail_mentions [where i = i and S = S and t = t and u = "Value_Type (es ! i)"]
      by (intro bexI [of _ "f i"]) simp_all
  qed
  show "\<exists>diags. NewListValue S (Some t) es = Return (NewListUnknown (Some t), diags) \<and>
         HasError diags \<and>
         IsUnknown (NewListUnknown (Some t)) \<and>
         ElementType (NewListUnknown (Some t)) = Some t \<and>
         Elements (NewListUnknown (Some t)) = [] \<and>
         (\<forall>i < length es. \<not> TypeEqual t (Value_Type (es ! i)) \<longrightarrow>
            (\<exists>d \<in> set diags. Severity d = SeverityError \<and>
               Detail d = invalidElementDetail S t i (Value_Type (es ! i)) \<and>
               sublist (Sprintf_d i) (Detail d) \<and>
               sublist (S (Some t)) (Detail d) \<and>
               sublist (S (Value_Type (es ! i))) (Detail d)))"
    using r e u m by (intro exI [of _ ?diags]) blast
qed

theorem NewListValue_type_mismatch_witness:
  "\<not> list_all (\<lambda>e. TypeEqual StringType (Value_Type e)) [StringValue ''a'', NumberValue 1] \<and>
   NewListValue exampleTypeString (Some StringType) [StringValue ''a'', NumberValue 1] =
     Return (NewListUnknown (Some StringType),
       [\<lparr>Severity = SeverityError, Summary = ''Invalid List Element Type'',
         Detail = invalidElementIntro @ ''List Element Type: types.StringType'' @ [CHR 0x0A] @
           ''List Index (1) Element Type: types.NumberType''\<rparr>])"
proof -
  have bad: "\<not> list_all (\<lambda>e. TypeEqual StringType (Value_Type e)) [StringValue ''a'', NumberValue 1]"
    by simp
  from NewListValue_type_mismatch [of StringType "[StringValue ''a'', NumberValue 1]" exampleTypeString] bad
  obtain diags where
    r: "NewListValue exampleTypeString (Some StringType) [StringValue ''a'', NumberValue 1] =
          Return (NewListUnknown (Some StringType), diags)"
    by blast
  have "NewListValue exampleTypeString (Some StringType) [StringValue ''a'', NumberValue 1] =
     Return (NewListUnknown (Some StringType),
       [\<lparr>Severity = SeverityError, Summary = ''Invalid List Element Type'',
         Detail = invalidElementIntro @ ''List Element Type: types.StringType'' @ [CHR 0x0A] @
           ''List Index (1) Element Type: types.NumberType''\<rparr>])"
    by (simp add: NewListValue_def AddError_def NewErrorDiagnostic_def HasError_def
        invalidElementDetail_def Sprintf_d.simps digit_def NewListUnknown_def)
  with bad r show ?thesis by simp
qed

lemma sublist_trans': "sublist a b \<Longrightarrow> sublist b c \<Longrightarrow> sublist a c"
  unfolding sublist_def by (metis append.assoc)

lemma sublist_append_left_mono: "sublist a c \<Longrightarrow> sublist a (b @ c)"
  by (simp add: sublist_append)

lemma sublist_Join: "s \<in> set ss \<Longrightarrow> sublist s (Join ss sep)"
proof (induction ss sep rule: Join.induct)
  case (3 s0 t ss sep)
  show ?case
  proof (cases "s = s0")
    case True
    then show ?thesis by simp
  next
    case False
    with 3 have "sublist s (Join (t # ss) sep)" by simp
    then show ?thesis
      by (simp add: sublist_append)
  qed
qed simp_all

lemma HasError_Nil: "\<not> HasError []"
  by (simp add: HasError_def)

lemma NewListValue_diags_error:
  "NewListValue S et es = Return (l, diags) \<Longrightarrow> HasError diags = (diags \<noteq> [])"
proof (cases et)
  case None
  then show "NewListValue S et es = Return (l, diags) \<Longrightarrow> HasError diags = (diags \<noteq> [])"
    by (auto simp: NewListValue_def HasError_def split: if_splits)
next
  case (Some t)
  then show "NewListValue S et es = Return (l, diags) \<Longrightarrow> HasError diags = (diags \<noteq> [])"
    by (auto simp: NewListValue_Some HasError_map_error mismatches_Nil HasError_Nil
        split: if_splits)
qed

text \<open>
  C7. \<^verbatim>\<open>NewListValueMust\<close> calls \<^verbatim>\<open>NewListValue\<close>: when that returns no diagnostic it
  returns the same list; when it returns diagnostics it panics with a text that contains
  the summary and the detail of each of them; a panic of \<^verbatim>\<open>NewListValue\<close> is the panic of
  \<^verbatim>\<open>NewListValueMust\<close>.
\<close>

theorem NewListValueMust_wraps:
  "(NewListValue S et es = Panic p \<longrightarrow> NewListValueMust S et es = Panic p) \<and>
   (NewListValue S et es = Return (l, diags) \<longrightarrow>
      (diags = [] \<longrightarrow> NewListValueMust S et es = Return l) \<and>
      (diags \<noteq> [] \<longrightarrow>
         (\<exists>msg. NewListValueMust S et es = Panic (PanicText msg) \<and>
            (\<forall>d \<in> set diags. sublist (Summary d) msg \<and> sublist (Detail d) msg))))"
proof (intro conjI impI)
  assume "NewListValue S et es = Panic p"
  then show "NewListValueMust S et es = Panic p"
    by (simp add: NewListValueMust_def)
next
  assume "NewListValue S et es = Return (l, diags)" "diags = []"
  then show "NewListValueMust S et es = Return l"
    by (simp add: NewListValueMust_def HasError_def)
next
  assume r: "NewListValue S et es = Return (l, diags)" and ne: "diags \<noteq> []"
  define line where "line = (\<lambda>d :: Diagnostic. SeverityString (Severity d) @ '' | '' @
                           Summary d @ '' | '' @ Detail d)"
  define msg where "msg = ''NewListValueMust received error(s): '' @ Join (map line diags) [CHR 0x0A]"
  have he: "HasError diags"
    using NewListValue_diags_error [OF r] ne by simp
  have p: "NewListValueMust S et es = Panic (PanicText msg)"
    using r he by (simp add: NewListValueMust_def msg_def line_def)
  have "sublist (Summary d) msg \<and> sublist (Detail d) msg" if "d \<in> set diags" for d
  proof -
    have "line d \<in> set (map line diags)"
      using that by simp
    then have "sublist (line d) (Join (map line diags) [CHR 0x0A])"
      by (rule sublist_Join)
    then have l: "sublist (line d) msg"
      unfolding msg_def by (rule sublist_append_left_mono)
    have "line d = (SeverityString (Severity d) @ '' | '') @ Summary d @ ('' | '' @ Detail d)"
      by (simp add: line_def)
    then have s: "sublist (Summary d) (line d)"
      by (simp only: sublist_appendI)
    have "line d = (SeverityString (Severity d) @ '' | '' @ Summary d @ '' | '') @ Detail d"
      by (simp add: line_def)
    then have t: "sublist (Detail d) (line d)"
      by (simp only: sublist_append_leftI)
    from s t l show ?thesis
      by (blast intro: sublist_trans')
  qed
  with p show "\<exists>msg. NewListValueMust S et es = Panic (PanicText msg) \<and>
            (\<forall>d \<in> set diags. sublist (Summary d) msg \<and> sublist (Detail d) msg)"
    by blast
qed

theorem NewListValueMust_wraps_witness:
  "NewListValue exampleTypeString (Some StringType) [StringValue ''a''] =
     Return (ListValue [StringValue ''a''] (Some StringType) ValueStateKnown, []) \<and>
   NewListValueMust exampleTypeString (Some StringType) [StringValue ''a''] =
     Return (ListValue [StringValue ''a''] (Some StringType) ValueStateKnown) \<and>
   NewListValue exampleTypeString None [StringValue ''a''] = Panic NilDereference \<and>
   NewListValueMust exampleTypeString None [StringValue ''a''] = Panic NilDereference \<and>
   NewListValue exampleTypeString (Some StringType) [NumberValue 1] =
     Return (NewListUnknown (Some StringType),
       [NewErrorDiagnostic ''Invalid List Element Type''
          (invalidElementDetail exampleTypeString StringType 0 (Some NumberType))]) \<and>
   (\<exists>msg. NewListValueMust exampleTypeString (Some StringType) [NumberValue 1] =
       Panic (PanicText msg) \<and>
       sublist ''Invalid List Element Type'' msg \<and>
       sublist (invalidElementDetail exampleTypeString StringType 0 (Some NumberType)) msg)"
proof -
  have a: "NewListValue exampleTypeString (Some StringType) [StringValue ''a''] =
     Return (ListValue [StringValue ''a''] (Some StringType) ValueStateKnown, [])"
    by (simp add: NewListValue_def HasError_def)
  have b: "NewListValue exampleTypeString None [StringValue ''a''] = Panic NilDereference"
    by (simp add: NewListValue_def)
  have c: "NewListValue exampleTypeString (Some StringType) [NumberValue 1] =
     Return (NewListUnknown (Some StringType),
       [NewErrorDiagnostic ''Invalid List Element Type''
          (invalidElementDetail exampleTypeString StringType 0 (Some NumberType))])"
    by (simp add: NewListValue_def HasError_def AddError_def NewErrorDiagnostic_def)
  show ?thesis
    using a b c
      NewListValueMust_wraps [of exampleTypeString "Some StringType" "[StringValue ''a'']" NilDereference
        "ListValue [StringValue ''a''] (Some StringType) ValueStateKnown" "[]"]
      NewListValueMust_wraps [of exampleTypeString None "[StringValue ''a'']" NilDereference
        zeroListValue "[]"]
      NewListValueMust_wraps [of exampleTypeString "Some StringType" "[NumberValue 1]" NilDereference
        "NewListUnknown (Some StringType)"
        "[NewErrorDiagnostic ''Invalid List Element Type''
          (invalidElementDetail exampleTypeString StringType 0 (Some NumberType))]"]
    by (simp add: NewErrorDiagnostic_def)
qed


section \<open>Nested dynamic types\<close>

inductive_simps containsDynamic_simps:
  "containsDynamic DynamicType"
  "containsDynamic BoolType"
  "containsDynamic NumberType"
  "containsDynamic StringType"
  "containsDynamic (ListType t)"
  "containsDynamic (SetType t)"
  "containsDynamic (MapType t)"
  "containsDynamic (TupleType ts)"
  "containsDynamic (ObjectType ats)"

lemma check_eq:
  "checkAttrTypeForDynamics D p t = (if containsDynamic t then Some (D p) else None)"
  "checkElementTypes D p ts = (if \<exists>t \<in> set ts. containsDynamic t then Some (D p) else None)"
  "checkAttributeTypes D p ats =
     (if \<exists>t \<in> snd ` set ats. containsDynamic t then Some (D p) else None)"
proof (induction D p t and D p ts and D p ats
    rule: checkAttrTypeForDynamics_checkElementTypes_checkAttributeTypes.induct)
  case (5 D p ts)
  then show ?case by (auto simp: containsDynamic_simps)
next
  case (6 D p ats)
  then show ?case by (force simp: containsDynamic_simps)
qed (auto simp: containsDynamic_simps)

lemma checkElementTypes_first:
  "(\<forall>x \<in> set ts. checkAttrTypeForDynamics D p x = None) \<Longrightarrow> 
   checkElementTypes D p (ts @ t # us) =
     (case checkAttrTypeForDynamics D p t of Some d \<Rightarrow> Some d | None \<Rightarrow> checkElementTypes D p us)"
  by (induction ts) auto

lemma checkAttributeTypes_first:
  "(\<forall>x \<in> set ats. checkAttrTypeForDynamics D p (snd x) = None) \<Longrightarrow> 
   checkAttributeTypes D p (ats @ (n, t) # bs) =
     (case checkAttrTypeForDynamics D p t of Some d \<Rightarrow> Some d | None \<Rightarrow> checkAttributeTypes D p bs)"
  by (induction ats) auto

text \<open>
  The element types of \<^verbatim>\<open>TestListReturnValidateImplementation\<close>: a string element type
  passes and a dynamic element type is rejected.
\<close>

lemma checkAttrTypeForDynamics_test_element_types:
  "checkAttrTypeForDynamics D p StringType = None"
  "checkAttrTypeForDynamics D p DynamicType = Some (D p)"
  by simp_all

text \<open>
  C8. \<^verbatim>\<open>checkAttrTypeForDynamics\<close> is a function of the path and the descriptor. It returns
  a diagnostic exactly when the descriptor is dynamic or contains a dynamic descriptor
  at some depth, the diagnostic is the one of the path, and it returns nil otherwise. In
  a tuple or an object the result is the one of the first element or attribute type
  with a violation, whatever follows it.
\<close>

theorem checkAttrTypeForDynamics_correct:
  "(checkAttrTypeForDynamics D p t \<noteq> None) = containsDynamic t \<and>
   (containsDynamic t \<longrightarrow> checkAttrTypeForDynamics D p t = Some (D p)) \<and>
   (\<not> containsDynamic t \<longrightarrow> checkAttrTypeForDynamics D p t = None) \<and>
   ((\<forall>x \<in> set ts. checkAttrTypeForDynamics D p x = None) \<and>
    checkAttrTypeForDynamics D p u \<noteq> None \<longrightarrow>
      checkAttrTypeForDynamics D p (TupleType (ts @ u # us)) = checkAttrTypeForDynamics D p u) \<and>
   ((\<forall>x \<in> set ats. checkAttrTypeForDynamics D p (snd x) = None) \<and>
    checkAttrTypeForDynamics D p u \<noteq> None \<longrightarrow>
      checkAttrTypeForDynamics D p (ObjectType (ats @ (n, u) # bs)) =
        checkAttrTypeForDynamics D p u)"
proof (intro conjI impI)
  show "(checkAttrTypeForDynamics D p t \<noteq> None) = containsDynamic t"
    by (simp add: check_eq(1))
  show "checkAttrTypeForDynamics D p t = Some (D p)" if "containsDynamic t"
    using that by (simp add: check_eq(1))
  show "checkAttrTypeForDynamics D p t = None" if "\<not> containsDynamic t"
    using that by (simp add: check_eq(1))
  show "checkAttrTypeForDynamics D p (TupleType (ts @ u # us)) = checkAttrTypeForDynamics D p u"
    if "(\<forall>x \<in> set ts. checkAttrTypeForDynamics D p x = None) \<and>
        checkAttrTypeForDynamics D p u \<noteq> None"
    using that by (auto simp: checkElementTypes_first)
  show "checkAttrTypeForDynamics D p (ObjectType (ats @ (n, u) # bs)) =
        checkAttrTypeForDynamics D p u"
    if "(\<forall>x \<in> set ats. checkAttrTypeForDynamics D p (snd x) = None) \<and>
        checkAttrTypeForDynamics D p u \<noteq> None"
    using that by (auto simp: checkAttributeTypes_first)
qed

theorem checkAttrTypeForDynamics_correct_witness:
  "containsDynamic (ListType (TupleType [StringType, MapType DynamicType])) \<and>
   checkAttrTypeForDynamics (\<lambda>p. ''dynamic at '' @ p) ''attr''
     (ListType (TupleType [StringType, MapType DynamicType])) = Some ''dynamic at attr'' \<and>
   \<not> containsDynamic (ListType (ObjectType [(''a'', StringType), (''b'', SetType NumberType)])) \<and>
   checkAttrTypeForDynamics (\<lambda>p. ''dynamic at '' @ p) ''attr''
     (ListType (ObjectType [(''a'', StringType), (''b'', SetType NumberType)])) = None \<and>
   checkAttrTypeForDynamics (\<lambda>p. ''dynamic at '' @ p) ''attr''
     (TupleType ([StringType] @ DynamicType # [ListType DynamicType])) =
     checkAttrTypeForDynamics (\<lambda>p. ''dynamic at '' @ p) ''attr'' DynamicType \<and>
   checkAttrTypeForDynamics (\<lambda>p. ''dynamic at '' @ p) ''attr''
     (ObjectType ([(''a'', StringType)] @ (''b'', DynamicType) # [(''c'', DynamicType)])) =
     checkAttrTypeForDynamics (\<lambda>p. ''dynamic at '' @ p) ''attr'' DynamicType"
  using checkAttrTypeForDynamics_correct [of "\<lambda>p. ''dynamic at '' @ p" "''attr''"
      "ListType (TupleType [StringType, MapType DynamicType])"
      "[StringType]" DynamicType "[ListType DynamicType]"
      "[(''a'', StringType)]" "''b''" "[(''c'', DynamicType)]"]
    checkAttrTypeForDynamics_correct [of "\<lambda>p. ''dynamic at '' @ p" "''attr''"
      "ListType (ObjectType [(''a'', StringType), (''b'', SetType NumberType)])"
      "[StringType]" DynamicType "[ListType DynamicType]"
      "[(''a'', StringType)]" "''b''" "[(''c'', DynamicType)]"]
  by simp


section \<open>Wire conversion of dynamic elements\<close>

lemma retypeDynamic_rewrapMarker: "retypeDynamic ty val = rewrapMarker ty val"
  by (cases val) (auto simp: retypeDynamic_def rewrapMarker_def tfIsNull_def tfIsKnown_def)

lemma firstNonDynamicType_converted:
  "firstNonDynamicType (map (\<lambda>val. Return (val, None)) vals) ty =
     Return (case find (\<lambda>val. Type_of val \<noteq> DynamicPseudoType) vals of
               Some val \<Rightarrow> Type_of val | None \<Rightarrow> ty)"
  by (induction vals) auto

lemma convertElements_converted:
  "convertElements (map (\<lambda>val. Return (val, None)) vals) ty acc =
     Return (Inr (acc @ map (retypeDynamic ty) vals))"
  by (induction vals arbitrary: acc) auto

lemma convertElements_Inr:
  "convertElements rs ty acc = Return (Inr out) \<Longrightarrow>
   \<exists>vals. rs = map (\<lambda>val. Return (val, None)) vals"
proof (induction rs ty acc rule: convertElements.induct)
  case (1 ty acc)
  then show ?case by simp
next
  case (4 val rs ty acc)
  then obtain vals where "rs = map (\<lambda>val. Return (val, None)) vals" by auto
  then have "Return (val, None) # rs = map (\<lambda>val. Return (val, None)) (val # vals)" by simp
  then show ?case by (rule exI)
qed simp_all

lemma ToTerraformValue_Known_dynamic:
  "ToTerraformValue V (ListValue es (Some DynamicType) ValueStateKnown) =
     (let converted = map (Value_ToTerraformValue V) es in
      case firstNonDynamicType converted DynamicPseudoType of
        Panic p \<Rightarrow> Panic p
      | Return elemTfType \<Rightarrow>
          (case convertElements converted elemTfType [] of
             Panic p \<Rightarrow> Panic p
           | Return (Inl err) \<Rightarrow> Return (tftypes_NewValue (tfList DynamicPseudoType) UnknownValue, Some err)
           | Return (Inr vals) \<Rightarrow>
               (case V (tfList DynamicPseudoType) vals of
                  Some err \<Rightarrow> Return (tftypes_NewValue (tfList DynamicPseudoType) UnknownValue, Some err)
                | None \<Rightarrow> Return (tftypes_NewValue (tfList DynamicPseudoType) (tfValues vals), None))))"
  by (simp add: Let_def)

text \<open>
  C4. For a known list whose declared element type is dynamic, \<^verbatim>\<open>ToTerraformValue\<close> returns
  a value without error exactly when every element converts without error and the
  validator accepts; the elements of the result are then the converted elements in
  order, where each null or unknown dynamic placeholder is re-typed to the type of the
  first converted element that is not a dynamic placeholder. On the list of an unknown
  dynamic value and the known string x, both elements of the result have the wire type
  string.
\<close>

theorem ToTerraformValue_dynamic_elements:
  "(ToTerraformValue V (ListValue es (Some DynamicType) ValueStateKnown) = Return (w, None)) =
   (\<exists>vals. map (Value_ToTerraformValue V) es = map (\<lambda>val. Return (val, None)) vals \<and>
      V (tfList DynamicPseudoType) (map (rewrapMarker (adoptedElementType vals)) vals) = None \<and>
      w = tftypes_NewValue (tfList DynamicPseudoType)
            (tfValues (map (rewrapMarker (adoptedElementType vals)) vals)))"
proof
  assume r: "ToTerraformValue V (ListValue es (Some DynamicType) ValueStateKnown) = Return (w, None)"
  let ?converted = "map (Value_ToTerraformValue V) es"
  from r obtain ty where ty: "firstNonDynamicType ?converted DynamicPseudoType = Return ty"
    unfolding ToTerraformValue_Known_dynamic by (auto simp: Let_def split: outcome.splits)
  from r ty obtain out where out: "convertElements ?converted ty [] = Return (Inr out)"
    unfolding ToTerraformValue_Known_dynamic
    by (auto simp: Let_def split: outcome.splits sum.splits option.splits)
  from r ty out have v: "V (tfList DynamicPseudoType) out = None"
    and w: "w = tftypes_NewValue (tfList DynamicPseudoType) (tfValues out)"
    unfolding ToTerraformValue_Known_dynamic
    by (auto simp: Let_def split: option.splits)
  from convertElements_Inr [OF out] obtain vals where
    vals: "?converted = map (\<lambda>val. Return (val, None)) vals" by blast
  have ty': "ty = adoptedElementType vals"
    using ty unfolding vals firstNonDynamicType_converted by (simp add: adoptedElementType_def)
  have out': "out = map (rewrapMarker (adoptedElementType vals)) vals"
    using out unfolding vals convertElements_converted ty'
    by (simp add: retypeDynamic_rewrapMarker [abs_def])
  show "\<exists>vals. map (Value_ToTerraformValue V) es = map (\<lambda>val. Return (val, None)) vals \<and>
      V (tfList DynamicPseudoType) (map (rewrapMarker (adoptedElementType vals)) vals) = None \<and>
      w = tftypes_NewValue (tfList DynamicPseudoType)
            (tfValues (map (rewrapMarker (adoptedElementType vals)) vals))"
    using vals v w out' by blast
next
  assume "\<exists>vals. map (Value_ToTerraformValue V) es = map (\<lambda>val. Return (val, None)) vals \<and>
      V (tfList DynamicPseudoType) (map (rewrapMarker (adoptedElementType vals)) vals) = None \<and>
      w = tftypes_NewValue (tfList DynamicPseudoType)
            (tfValues (map (rewrapMarker (adoptedElementType vals)) vals))"
  then obtain vals where
    vals: "map (Value_ToTerraformValue V) es = map (\<lambda>val. Return (val, None)) vals" and
    v: "V (tfList DynamicPseudoType) (map (rewrapMarker (adoptedElementType vals)) vals) = None" and
    w: "w = tftypes_NewValue (tfList DynamicPseudoType)
            (tfValues (map (rewrapMarker (adoptedElementType vals)) vals))"
    by blast
  show "ToTerraformValue V (ListValue es (Some DynamicType) ValueStateKnown) = Return (w, None)"
    unfolding ToTerraformValue_Known_dynamic vals
    by (simp add: firstNonDynamicType_converted convertElements_converted
        retypeDynamic_rewrapMarker [abs_def] adoptedElementType_def [symmetric] v w)
qed

theorem ToTerraformValue_dynamic_elements_witness:
  "map (Value_ToTerraformValue exampleValidateValue) [DynamicUnknown, DynamicValue (StringValue ''x'')] =
     map (\<lambda>val. Return (val, None))
       [tftypes_NewValue DynamicPseudoType UnknownValue, tftypes_NewValue tfString (tfStringData ''x'')] \<and>
   adoptedElementType
     [tftypes_NewValue DynamicPseudoType UnknownValue, tftypes_NewValue tfString (tfStringData ''x'')] = tfString \<and>
   ToTerraformValue exampleValidateValue
     (ListValue [DynamicUnknown, DynamicValue (StringValue ''x'')] (Some DynamicType) ValueStateKnown) =
     Return (tftypes_NewValue (tfList DynamicPseudoType)
               (tfValues [tftypes_NewValue tfString UnknownValue, tftypes_NewValue tfString (tfStringData ''x'')]),
             None)"
proof -
  let ?vals = "[tftypes_NewValue DynamicPseudoType UnknownValue, tftypes_NewValue tfString (tfStringData ''x'')]"
  have c: "map (Value_ToTerraformValue exampleValidateValue)
        [DynamicUnknown, DynamicValue (StringValue ''x'')] = map (\<lambda>val. Return (val, None)) ?vals"
    by simp
  have a: "adoptedElementType ?vals = tfString"
    by (simp add: adoptedElementType_def)
  have m: "map (rewrapMarker (adoptedElementType ?vals)) ?vals =
      [tftypes_NewValue tfString UnknownValue, tftypes_NewValue tfString (tfStringData ''x'')]"
    by (simp add: a rewrapMarker_def)
  have v: "exampleValidateValue (tfList DynamicPseudoType)
      (map (rewrapMarker (adoptedElementType ?vals)) ?vals) = None"
    unfolding m by simp
  have "ToTerraformValue exampleValidateValue
     (ListValue [DynamicUnknown, DynamicValue (StringValue ''x'')] (Some DynamicType) ValueStateKnown) =
     Return (tftypes_NewValue (tfList DynamicPseudoType)
               (tfValues (map (rewrapMarker (adoptedElementType ?vals)) ?vals)), None)"
    using ToTerraformValue_dynamic_elements [of exampleValidateValue
        "[DynamicUnknown, DynamicValue (StringValue ''x'')]"
        "tftypes_NewValue (tfList DynamicPseudoType)
               (tfValues (map (rewrapMarker (adoptedElementType ?vals)) ?vals))"] c v
    by blast
  with c a m show ?thesis by simp
qed


section \<open>Semantic equality of dynamic values\<close>

text \<open>
  C1, as stated, fails: \<^verbatim>\<open>ValueSemanticEqualityDynamic\<close> does not read the state of the
  values. With a null prior value of a type that implements the capability, the
  provider's \<^verbatim>\<open>DynamicSemanticEquals\<close> is called and, as it answers true, the response
  value becomes the prior value.
\<close>

theorem ValueSemanticEqualityDynamic_null_prior_counterexample:
  "exampleIsNull DynamicNull \<and>
   ValueSemanticEqualityDynamic exampleImplements exampleSemanticEquals exampleString
     \<lparr>PriorValue = DynamicNull, ProposedNewValue = DynamicValue (StringValue ''x'')\<rparr>
     \<lparr>NewValue = DynamicValue (StringValue ''x''), Diagnostics = []\<rparr> =
   (\<lparr>NewValue = DynamicNull, Diagnostics = []\<rparr>,
    [FrameworkTrace ''Calling provider defined type-based SemanticEquals'' ''dynamic'',
     CallDynamicSemanticEquals (DynamicValue (StringValue ''x'')) DynamicNull,
     FrameworkTrace ''Called provider defined type-based SemanticEquals'' ''dynamic''])"
  by (simp add: ValueSemanticEqualityDynamic_def exampleSemanticEquals_def exampleString_def)

text \<open>
  C1, amended. The gate of \<^verbatim>\<open>ValueSemanticEqualityDynamic\<close> is the capability, whatever the
  states of the two values: when one of them does not implement it, nothing is called
  and the response is unchanged; when both implement it, \<^verbatim>\<open>DynamicSemanticEquals\<close> is called
  once, on the proposed value with the prior value, the response value becomes the prior
  value when the call answers true and is unchanged otherwise, and the diagnostics of
  the call are added to the response.
\<close>

theorem ValueSemanticEqualityDynamic_gate:
  "(\<not> (implements (PriorValue req) \<and> implements (ProposedNewValue req)) \<longrightarrow>
      ValueSemanticEqualityDynamic implements DynamicSemanticEquals String req resp = (resp, [])) \<and>
   (implements (PriorValue req) \<and> implements (ProposedNewValue req) \<longrightarrow>
      snd (ValueSemanticEqualityDynamic implements DynamicSemanticEquals String req resp) =
        [FrameworkTrace ''Calling provider defined type-based SemanticEquals''
           (String (ProposedNewValue req)),
         CallDynamicSemanticEquals (ProposedNewValue req) (PriorValue req),
         FrameworkTrace ''Called provider defined type-based SemanticEquals''
           (String (ProposedNewValue req))] \<and>
      NewValue (fst (ValueSemanticEqualityDynamic implements DynamicSemanticEquals String req resp)) =
        (if fst (DynamicSemanticEquals (ProposedNewValue req) (PriorValue req))
         then PriorValue req else NewValue resp) \<and>
      set (Diagnostics
            (fst (ValueSemanticEqualityDynamic implements DynamicSemanticEquals String req resp))) =
        set (Diagnostics resp) \<union>
        set (snd (DynamicSemanticEquals (ProposedNewValue req) (PriorValue req))))"
proof (intro conjI impI)
  assume "\<not> (implements (PriorValue req) \<and> implements (ProposedNewValue req))"
  then show "ValueSemanticEqualityDynamic implements DynamicSemanticEquals String req resp =
      (resp, [])"
    by (auto simp: ValueSemanticEqualityDynamic_def)
next
  assume both: "implements (PriorValue req) \<and> implements (ProposedNewValue req)"
  obtain usePriorValue diags where
    call: "DynamicSemanticEquals (ProposedNewValue req) (PriorValue req) = (usePriorValue, diags)"
    by (cases "DynamicSemanticEquals (ProposedNewValue req) (PriorValue req)")
  let ?effects = "[FrameworkTrace ''Calling provider defined type-based SemanticEquals''
           (String (ProposedNewValue req)),
         CallDynamicSemanticEquals (ProposedNewValue req) (PriorValue req),
         FrameworkTrace ''Called provider defined type-based SemanticEquals''
           (String (ProposedNewValue req))]"
  let ?resp1 = "resp\<lparr>Diagnostics := Diagnostics resp @ diags\<rparr>"
  have r: "ValueSemanticEqualityDynamic implements DynamicSemanticEquals String req resp =
      (if \<not> usePriorValue then (?resp1, ?effects)
       else (?resp1\<lparr>NewValue := PriorValue req\<rparr>, ?effects))"
    using both by (simp add: ValueSemanticEqualityDynamic_def call Let_def)
  show "snd (ValueSemanticEqualityDynamic implements DynamicSemanticEquals String req resp) =
      ?effects"
    by (simp add: r)
  show "NewValue (fst (ValueSemanticEqualityDynamic implements DynamicSemanticEquals String
        req resp)) =
      (if fst (DynamicSemanticEquals (ProposedNewValue req) (PriorValue req))
       then PriorValue req else NewValue resp)"
    by (simp add: r call)
  show "set (Diagnostics
            (fst (ValueSemanticEqualityDynamic implements DynamicSemanticEquals String req resp))) =
        set (Diagnostics resp) \<union>
        set (snd (DynamicSemanticEquals (ProposedNewValue req) (PriorValue req)))"
    by (simp add: r call)
qed

theorem ValueSemanticEqualityDynamic_gate_witness:
  "exampleImplements DynamicUnknown \<and> exampleImplements (DynamicValue (NumberValue 1)) \<and>
   exampleIsUnknown DynamicUnknown \<and>
   snd (ValueSemanticEqualityDynamic exampleImplements exampleSemanticEquals exampleString
          \<lparr>PriorValue = DynamicValue (NumberValue 1), ProposedNewValue = DynamicUnknown\<rparr>
          \<lparr>NewValue = DynamicUnknown, Diagnostics = []\<rparr>) =
     [FrameworkTrace ''Calling provider defined type-based SemanticEquals'' ''dynamic'',
      CallDynamicSemanticEquals DynamicUnknown (DynamicValue (NumberValue 1)),
      FrameworkTrace ''Called provider defined type-based SemanticEquals'' ''dynamic''] \<and>
   NewValue (fst (ValueSemanticEqualityDynamic exampleImplements exampleSemanticEquals exampleString
          \<lparr>PriorValue = DynamicValue (NumberValue 1), ProposedNewValue = DynamicUnknown\<rparr>
          \<lparr>NewValue = DynamicUnknown, Diagnostics = []\<rparr>)) = DynamicValue (NumberValue 1) \<and>
   \<not> exampleImplements (StringValue ''a'') \<and>
   ValueSemanticEqualityDynamic exampleImplements exampleSemanticEquals exampleString
     \<lparr>PriorValue = StringValue ''a'', ProposedNewValue = StringValue ''b''\<rparr>
     \<lparr>NewValue = StringValue ''b'', Diagnostics = []\<rparr> =
     (\<lparr>NewValue = StringValue ''b'', Diagnostics = []\<rparr>, [])"
  using
    ValueSemanticEqualityDynamic_gate [of exampleImplements
      "\<lparr>PriorValue = DynamicValue (NumberValue 1), ProposedNewValue = DynamicUnknown\<rparr>"
      exampleSemanticEquals exampleString "\<lparr>NewValue = DynamicUnknown, Diagnostics = []\<rparr>"]
    ValueSemanticEqualityDynamic_gate [of exampleImplements
      "\<lparr>PriorValue = StringValue ''a'', ProposedNewValue = StringValue ''b''\<rparr>"
      exampleSemanticEquals exampleString "\<lparr>NewValue = StringValue ''b'', Diagnostics = []\<rparr>"]
  by (simp add: exampleSemanticEquals_def exampleString_def)

section \<open>Extraction of the elements\<close>

text \<open>
  C6, as stated, fails: \<^verbatim>\<open>ElementsAs\<close> has one flag. With a collaborator that answers the
  options it received, neither value of the flag makes it receive the options that
  treat an unhandled null as empty and an unhandled unknown as an error.
\<close>

theorem ElementsAs_flags_counterexample:
  "ElementsAs exampleValidateValue recordOptions (NewListNull (Some StringType)) [] True =
     Return ([\<lparr>UnhandledNullAsEmpty = True, UnhandledUnknownAsEmpty = True\<rparr>], []) \<and>
   ElementsAs exampleValidateValue recordOptions (NewListNull (Some StringType)) [] False =
     Return ([\<lparr>UnhandledNullAsEmpty = False, UnhandledUnknownAsEmpty = False\<rparr>], []) \<and>
   ElementsAs exampleValidateValue recordOptions (NewListNull (Some StringType)) [] True \<noteq>
     Return ([\<lparr>UnhandledNullAsEmpty = True, UnhandledUnknownAsEmpty = False\<rparr>], []) \<and>
   ElementsAs exampleValidateValue recordOptions (NewListNull (Some StringType)) [] False \<noteq>
     Return ([\<lparr>UnhandledNullAsEmpty = True, UnhandledUnknownAsEmpty = False\<rparr>], [])"
  by (simp add: ElementsAs_def recordOptions_def NewListNull_def state_constants_distinct)

text \<open>
  C6, amended. \<^verbatim>\<open>ElementsAs\<close> passes its one flag \<^verbatim>\<open>allowUnhandled\<close> to the collaborator as
  both options: the result is the one of a collaborator that is given these options
  whatever it is called with, and when the conversion to the wire value succeeds the
  result is the answer of the collaborator on the options that both equal the flag.
  When the conversion fails the collaborator is not called and the result is one error.
\<close>

theorem ElementsAs_one_flag:
  "ElementsAs ValidateValue Into l target allowUnhandled =
     ElementsAs ValidateValue
       (\<lambda>typ val tgt opts. Into typ val tgt
          \<lparr>UnhandledNullAsEmpty = allowUnhandled, UnhandledUnknownAsEmpty = allowUnhandled\<rparr>)
       l target allowUnhandled \<and>
   (ToTerraformValue ValidateValue l = Return (values, None) \<longrightarrow>
      ElementsAs ValidateValue Into l target allowUnhandled =
        Into (map_option ListType (elementType l)) values target
          \<lparr>UnhandledNullAsEmpty = allowUnhandled, UnhandledUnknownAsEmpty = allowUnhandled\<rparr>) \<and>
   (ToTerraformValue ValidateValue l = Return (values, Some err) \<longrightarrow>
      ElementsAs ValidateValue Into l target allowUnhandled =
        Return (target, [NewErrorDiagnostic ''List Element Conversion Error''
                           (elementConversionErrorDetail err)]))"
proof (intro conjI impI)
  show "ElementsAs ValidateValue Into l target allowUnhandled =
     ElementsAs ValidateValue
       (\<lambda>typ val tgt opts. Into typ val tgt
          \<lparr>UnhandledNullAsEmpty = allowUnhandled, UnhandledUnknownAsEmpty = allowUnhandled\<rparr>)
       l target allowUnhandled"
  proof (cases "ToTerraformValue ValidateValue l")
    case (Panic p)
    then show ?thesis by (simp add: ElementsAs_def)
  next
    case (Return r)
    then show ?thesis by (cases r) (simp add: ElementsAs_def)
  qed
next
  assume "ToTerraformValue ValidateValue l = Return (values, None)"
  then show "ElementsAs ValidateValue Into l target allowUnhandled =
        Into (map_option ListType (elementType l)) values target
          \<lparr>UnhandledNullAsEmpty = allowUnhandled, UnhandledUnknownAsEmpty = allowUnhandled\<rparr>"
    by (simp add: ElementsAs_def)
next
  assume "ToTerraformValue ValidateValue l = Return (values, Some err)"
  then show "ElementsAs ValidateValue Into l target allowUnhandled =
        Return (target, [NewErrorDiagnostic ''List Element Conversion Error''
                           (elementConversionErrorDetail err)])"
    by (simp add: ElementsAs_def)
qed

theorem ElementsAs_one_flag_witness:
  "ToTerraformValue exampleValidateValue
     (ListValue [StringValue ''a''] (Some StringType) ValueStateKnown) =
     Return (tftypes_NewValue (tfList tfString)
               (tfValues [tftypes_NewValue tfString (tfStringData ''a'')]), None) \<and>
   ElementsAs exampleValidateValue recordOptions
     (ListValue [StringValue ''a''] (Some StringType) ValueStateKnown) [] True =
     Return ([\<lparr>UnhandledNullAsEmpty = True, UnhandledUnknownAsEmpty = True\<rparr>], []) \<and>
   ToTerraformValue exampleValidateValue
     (ListValue [StringValue ''a'', NumberValue 1] (Some StringType) ValueStateKnown) =
     Return (tftypes_NewValue (tfList tfString) UnknownValue,
             Some ''can not use the type of an element as the element type'') \<and>
   ElementsAs exampleValidateValue recordOptions
     (ListValue [StringValue ''a'', NumberValue 1] (Some StringType) ValueStateKnown) [] True =
     Return ([], [NewErrorDiagnostic ''List Element Conversion Error''
                    (elementConversionErrorDetail ''can not use the type of an element as the element type'')])"
proof -
  have a: "ToTerraformValue exampleValidateValue
     (ListValue [StringValue ''a''] (Some StringType) ValueStateKnown) =
     Return (tftypes_NewValue (tfList tfString)
               (tfValues [tftypes_NewValue tfString (tfStringData ''a'')]), None)"
    by (simp add: retypeDynamic_def)
  have b: "ToTerraformValue exampleValidateValue
     (ListValue [StringValue ''a'', NumberValue 1] (Some StringType) ValueStateKnown) =
     Return (tftypes_NewValue (tfList tfString) UnknownValue,
             Some ''can not use the type of an element as the element type'')"
    by (simp add: retypeDynamic_def)
  have c: "ElementsAs exampleValidateValue recordOptions
     (ListValue [StringValue ''a''] (Some StringType) ValueStateKnown) [] True =
     recordOptions (map_option ListType
         (elementType (ListValue [StringValue ''a''] (Some StringType) ValueStateKnown)))
       (tftypes_NewValue (tfList tfString)
               (tfValues [tftypes_NewValue tfString (tfStringData ''a'')])) []
       \<lparr>UnhandledNullAsEmpty = True, UnhandledUnknownAsEmpty = True\<rparr>"
    using a ElementsAs_one_flag [of exampleValidateValue recordOptions
        "ListValue [StringValue ''a''] (Some StringType) ValueStateKnown" "[]" True
        "tftypes_NewValue (tfList tfString)
               (tfValues [tftypes_NewValue tfString (tfStringData ''a'')])"
        "''none''"]
    by blast
  have d: "ElementsAs exampleValidateValue recordOptions
     (ListValue [StringValue ''a'', NumberValue 1] (Some StringType) ValueStateKnown) [] True =
     Return ([], [NewErrorDiagnostic ''List Element Conversion Error''
                    (elementConversionErrorDetail
                       ''can not use the type of an element as the element type'')])"
    using b ElementsAs_one_flag [of exampleValidateValue recordOptions
        "ListValue [StringValue ''a'', NumberValue 1] (Some StringType) ValueStateKnown" "[]" True
        "tftypes_NewValue (tfList tfString) UnknownValue"
        "''can not use the type of an element as the element type''"]
    by blast
  show ?thesis
    using a b c d by (simp add: recordOptions_def)
qed

section \<open>The copy made by the element accessor\<close>

lemma slice_get_append:
  "array s < length h \<Longrightarrow> slice_get (h @ hs) s = slice_get h s"
  by (simp add: slice_get_def nth_append)

lemma slice_get_new:
  "slice_get (h @ [slice_get h s] @ hs) \<lparr>array = length h, offset = 0, len = len s\<rparr> = slice_get h s"
  by (simp add: slice_get_def nth_append)

lemma load_cong:
  "slice_get h' (elements_field l) = slice_get h (elements_field l) \<Longrightarrow> load h' l = load h l"
  by (simp add: load_def)

text \<open>
  An assignment through a slice changes the cell of that index in the slice.
\<close>

lemma slice_set_effect:
  "slice_valid h s \<Longrightarrow> slice_set h s i v = Return h' \<Longrightarrow>
   slice_get h' s = (slice_get h s)[i := v]"
  by (auto simp: slice_valid_def slice_set_def slice_get_def take_update_swap drop_update_swap
      split: if_splits)

text \<open>
  A sequence of assignments keeps the number of arrays and changes the arrays of the
  slices it writes through only.
\<close>

lemma slice_sets_frame:
  "slice_sets h ws = Return h' \<Longrightarrow>
   length h' = length h \<and> (\<forall>a. (\<forall>w \<in> set ws. array (fst w) \<noteq> a) \<longrightarrow> h' ! a = h ! a)"
proof (induction h ws rule: slice_sets.induct)
  case (1 h)
  then show ?case by simp
next
  case (2 h s i v ws)
  then obtain h1 where s: "slice_set h s i v = Return h1" and r: "slice_sets h1 ws = Return h'"
    by (auto split: outcome.splits)
  from s have h1: "h1 = h[array s := (h ! array s)[offset s + i := v]]"
    by (auto simp: slice_set_def split: if_splits)
  from "2.IH" [OF s r] have ih: "length h' = length h1"
    "\<And>a. (\<forall>w \<in> set ws. array (fst w) \<noteq> a) \<Longrightarrow> h' ! a = h1 ! a"
    by auto
  show ?case
  proof (intro conjI allI impI)
    show "length h' = length h" using ih(1) by (simp add: h1)
  next
    fix a
    assume a: "\<forall>w \<in> set ((s, i, v) # ws). array (fst w) \<noteq> a"
    then have "h' ! a = h1 ! a" by (intro ih(2)) simp
    moreover have "h1 ! a = h ! a" using a by (simp add: h1)
    ultimately show "h' ! a = h ! a" by simp
  qed
qed

lemma slice_get_cong: "h' ! array s = h ! array s \<Longrightarrow> slice_get h' s = slice_get h s"
  by (simp add: slice_get_def)

text \<open>
  C9. Two successive calls of \<^verbatim>\<open>Elements\<close> on a list in memory return two slices that
  both hold the elements of the list. Whatever sequence of assignments to the cells of
  the two slices is run, the elements of the list are unchanged, and so is what
  \<^verbatim>\<open>Elements\<close>, \<^verbatim>\<open>Equal\<close>, \<^verbatim>\<open>String\<close> and \<^verbatim>\<open>ToTerraformValue\<close> answer on the list;
  assignments through one of the slices only leave the other slice unchanged.
\<close>

theorem Elements_defensive_copy:
  assumes valid: "slice_valid h (elements_field l)"
    and first: "Elements_heap h l = (r1, h1)"
    and second: "Elements_heap h1 l = (r2, h2)"
    and through: "\<forall>w \<in> set ws. fst w = r1 \<or> fst w = r2"
    and run: "slice_sets h2 ws = Return h3"
  shows "slice_get h2 r1 = Elements (load h l) \<and> slice_get h2 r2 = Elements (load h l) \<and>
    load h2 l = load h l \<and>
    ((\<forall>w \<in> set ws. fst w = r1) \<longrightarrow> slice_get h3 r2 = slice_get h2 r2) \<and>
    ((\<forall>w \<in> set ws. fst w = r2) \<longrightarrow> slice_get h3 r1 = slice_get h2 r1) \<and>
    load h3 l = load h l \<and>
    Elements (load h3 l) = Elements (load h l) \<and>
    Equal (load h3 l) ov = Equal (load h l) ov \<and>
    ListValue_String kindString (load h3 l) = ListValue_String kindString (load h l) \<and>
    ToTerraformValue ValidateValue (load h3 l) = ToTerraformValue ValidateValue (load h l)"
proof -
  let ?s = "elements_field l"
  have a: "array ?s < length h"
    using valid by (simp add: slice_valid_def)
  have r1: "r1 = \<lparr>array = length h, offset = 0, len = len ?s\<rparr>"
    and h1: "h1 = h @ [slice_get h ?s]"
    using first by (simp_all add: Elements_heap_def Let_def)
  have s1: "slice_get h1 ?s = slice_get h ?s"
    unfolding h1 using a by (rule slice_get_append)
  have r2: "r2 = \<lparr>array = Suc (length h), offset = 0, len = len ?s\<rparr>"
    and h2: "h2 = h @ [slice_get h ?s, slice_get h ?s]"
    using second s1 by (auto simp: Elements_heap_def Let_def h1)
  have g1: "slice_get h2 r1 = slice_get h ?s"
    unfolding r1 h2 using slice_get_new [of h ?s "[slice_get h ?s]"] by simp
  have g2: "slice_get h2 r2 = slice_get h ?s"
    unfolding r2 h2 by (simp add: slice_get_def nth_append)
  have s2: "slice_get h2 ?s = slice_get h ?s"
    unfolding h2 using a by (rule slice_get_append)
  have frame: "h3 ! a = h2 ! a" if "\<forall>w \<in> set ws. array (fst w) \<noteq> a" for a
    using slice_sets_frame [OF run] that by (elim conjE allE [of _ a] impE) assumption+
  have "\<forall>w \<in> set ws. array (fst w) \<noteq> array ?s"
  proof
    fix w assume "w \<in> set ws"
    with through have "fst w = r1 \<or> fst w = r2" by (rule bspec)
    then have "array (fst w) = length h \<or> array (fst w) = Suc (length h)"
      by (auto simp: r1 r2)
    with a show "array (fst w) \<noteq> array ?s" by arith
  qed
  then have "h3 ! array ?s = h2 ! array ?s"
    by (rule frame)
  then have "slice_get h3 ?s = slice_get h2 ?s"
    by (rule slice_get_cong)
  then have s3: "slice_get h3 ?s = slice_get h ?s"
    by (simp only: s2)
  have o1: "slice_get h3 r2 = slice_get h2 r2" if "\<forall>w \<in> set ws. fst w = r1"
  proof -
    have "\<forall>w \<in> set ws. array (fst w) \<noteq> array r2"
    proof
      fix w assume "w \<in> set ws"
      with that have "fst w = r1" by (rule bspec)
      then show "array (fst w) \<noteq> array r2" by (simp add: r1 r2)
    qed
    then have "h3 ! array r2 = h2 ! array r2" by (rule frame)
    then show ?thesis by (rule slice_get_cong)
  qed
  have o2: "slice_get h3 r1 = slice_get h2 r1" if "\<forall>w \<in> set ws. fst w = r2"
  proof -
    have "\<forall>w \<in> set ws. array (fst w) \<noteq> array r1"
    proof
      fix w assume "w \<in> set ws"
      with that have "fst w = r2" by (rule bspec)
      then show "array (fst w) \<noteq> array r1" by (simp add: r1 r2)
    qed
    then have "h3 ! array r1 = h2 ! array r1" by (rule frame)
    then show ?thesis by (rule slice_get_cong)
  qed
  have l2: "load h2 l = load h l"
    using s2 by (rule load_cong)
  have l3: "load h3 l = load h l"
    using s3 by (rule load_cong)
  have e: "Elements (load h l) = slice_get h ?s"
    by (simp add: Elements_def load_def)
  show ?thesis
  proof (intro conjI impI)
    show "slice_get h2 r1 = Elements (load h l)" by (simp only: g1 e)
    show "slice_get h2 r2 = Elements (load h l)" by (simp only: g2 e)
    show "load h2 l = load h l" by (rule l2)
    show "slice_get h3 r2 = slice_get h2 r2" if "\<forall>w \<in> set ws. fst w = r1"
      using that by (rule o1)
    show "slice_get h3 r1 = slice_get h2 r1" if "\<forall>w \<in> set ws. fst w = r2"
      using that by (rule o2)
    show "load h3 l = load h l" by (rule l3)
    show "Elements (load h3 l) = Elements (load h l)" by (simp only: l3)
    show "Equal (load h3 l) ov = Equal (load h l) ov" by (simp only: l3)
    show "ListValue_String kindString (load h3 l) = ListValue_String kindString (load h l)"
      by (simp only: l3)
    show "ToTerraformValue ValidateValue (load h3 l) = ToTerraformValue ValidateValue (load h l)"
      by (simp only: l3)
  qed
qed


theorem Elements_defensive_copy_witness:
  "slice_valid [[StringValue ''a'', StringValue ''b'']] \<lparr>array = 0, offset = 0, len = 2\<rparr> \<and>
   Elements_heap [[StringValue ''a'', StringValue ''b'']]
     \<lparr>elements_field = \<lparr>array = 0, offset = 0, len = 2\<rparr>,
      elementType_field = Some StringType, state_field = ValueStateKnown\<rparr> =
     (\<lparr>array = 1, offset = 0, len = 2\<rparr>,
      [[StringValue ''a'', StringValue ''b''], [StringValue ''a'', StringValue ''b'']]) \<and>
   Elements_heap [[StringValue ''a'', StringValue ''b''], [StringValue ''a'', StringValue ''b'']]
     \<lparr>elements_field = \<lparr>array = 0, offset = 0, len = 2\<rparr>,
      elementType_field = Some StringType, state_field = ValueStateKnown\<rparr> =
     (\<lparr>array = 2, offset = 0, len = 2\<rparr>,
      [[StringValue ''a'', StringValue ''b''], [StringValue ''a'', StringValue ''b''],
       [StringValue ''a'', StringValue ''b'']]) \<and>
   slice_sets
     [[StringValue ''a'', StringValue ''b''], [StringValue ''a'', StringValue ''b''],
      [StringValue ''a'', StringValue ''b'']]
     [(\<lparr>array = 1, offset = 0, len = 2\<rparr>, 0, NumberValue 7),
      (\<lparr>array = 1, offset = 0, len = 2\<rparr>, 1, DynamicNull)] =
     Return [[StringValue ''a'', StringValue ''b''], [NumberValue 7, DynamicNull],
             [StringValue ''a'', StringValue ''b'']] \<and>
   slice_get [[StringValue ''a'', StringValue ''b''], [NumberValue 7, DynamicNull],
             [StringValue ''a'', StringValue ''b'']] \<lparr>array = 1, offset = 0, len = 2\<rparr> =
     [NumberValue 7, DynamicNull] \<and>
   slice_get [[StringValue ''a'', StringValue ''b''], [NumberValue 7, DynamicNull],
             [StringValue ''a'', StringValue ''b'']] \<lparr>array = 2, offset = 0, len = 2\<rparr> =
     [StringValue ''a'', StringValue ''b''] \<and>
   load [[StringValue ''a'', StringValue ''b''], [NumberValue 7, DynamicNull],
         [StringValue ''a'', StringValue ''b'']]
     \<lparr>elements_field = \<lparr>array = 0, offset = 0, len = 2\<rparr>,
      elementType_field = Some StringType, state_field = ValueStateKnown\<rparr> =
     ListValue [StringValue ''a'', StringValue ''b''] (Some StringType) ValueStateKnown"
proof -
  let ?h = "[[StringValue ''a'', StringValue ''b'']]"
  let ?l = "\<lparr>elements_field = \<lparr>array = 0, offset = 0, len = 2\<rparr>,
      elementType_field = Some StringType, state_field = ValueStateKnown\<rparr>"
  let ?r1 = "\<lparr>array = 1, offset = 0, len = 2\<rparr>"
  let ?r2 = "\<lparr>array = 2, offset = 0, len = 2\<rparr>"
  let ?h1 = "[[StringValue ''a'', StringValue ''b''], [StringValue ''a'', StringValue ''b'']]"
  let ?h2 = "[[StringValue ''a'', StringValue ''b''], [StringValue ''a'', StringValue ''b''],
       [StringValue ''a'', StringValue ''b'']]"
  let ?ws = "[(?r1, 0, NumberValue 7), (?r1, 1, DynamicNull)]"
  let ?h3 = "[[StringValue ''a'', StringValue ''b''], [NumberValue 7, DynamicNull],
             [StringValue ''a'', StringValue ''b'']]"
  have valid: "slice_valid ?h (elements_field ?l)"
    by (simp add: slice_valid_def)
  have first: "Elements_heap ?h ?l = (?r1, ?h1)"
    by (simp add: Elements_heap_def slice_get_def)
  have second: "Elements_heap ?h1 ?l = (?r2, ?h2)"
    by (simp add: Elements_heap_def slice_get_def)
  have through: "\<forall>w \<in> set ?ws. fst w = ?r1 \<or> fst w = ?r2"
    by simp
  have only: "\<forall>w \<in> set ?ws. fst w = ?r1"
    by simp
  have run: "slice_sets ?h2 ?ws = Return ?h3"
    by (simp add: slice_set_def)
  have l0: "load ?h ?l = ListValue [StringValue ''a'', StringValue ''b''] (Some StringType) ValueStateKnown"
    by (simp add: load_def slice_get_def)
  have g: "slice_get ?h2 ?r2 = [StringValue ''a'', StringValue ''b'']"
    by (simp add: slice_get_def)
  have m: "slice_get ?h3 ?r1 = [NumberValue 7, DynamicNull]"
    by (simp add: slice_get_def)
  from Elements_defensive_copy [OF valid first second through run,
      of StringNull exampleString exampleValidateValue] only
  have "slice_get ?h3 ?r2 = slice_get ?h2 ?r2" and "load ?h3 ?l = load ?h ?l"
    by blast+
  with valid first second run l0 g m show ?thesis
    by simp
qed


end
